theory Spec2Isabelle
  imports Main "HOL-Library.Word"
begin

unbundle bit_operations_syntax

section \<open>Paths, documents and the file store\<close>

text \<open>
  A \<open>pathlib.Path\<close> is the list of its components below the file-system root;
  \<open>p / c\<close> appends the component \<open>c\<close> and \<open>str(p)\<close> joins the components with
  slashes. This is \<open>pathlib\<close>'s reading of \<open>p / c\<close> for a \<open>c\<close> that is one plain
  component, as every identifier that \<open>generate_run_id\<close> produces is: not empty, not
  \<open>.\<close> or \<open>..\<close>, and without a slash. What \<open>pathlib\<close> and the operating system make
  of other text (an empty or dotted component is dropped or climbs, a slash splits the
  text, an absolute one replaces \<open>p\<close>) is not modelled.
\<close>

type_synonym path = "string list"

definition joinpath :: "path \<Rightarrow> string \<Rightarrow> path" where
  "joinpath p c = p @ [c]"

definition path_str :: "path \<Rightarrow> string" where
  "path_str p = concat (map (\<lambda>c. CHR ''/'' # c) p)"

definition plain_component :: "string \<Rightarrow> bool" where
  "plain_component c = (c \<noteq> [] \<and> c \<noteq> ''.'' \<and> c \<noteq> ''..'' \<and> CHR ''/'' \<notin> set c)"

text \<open>The values \<open>json.load\<close> can return and \<open>json.dump\<close> can write.\<close>

datatype json =
    JNull
  | JBool bool
  | JNumber int
  | JString string
  | JArray "json list"
  | JObject "(string \<times> json) list"

text \<open>
  A file holds either the text of one JSON document (\<open>Json v\<close>, what
  \<open>json.dump(v, f, indent=2)\<close> leaves in a file opened with mode \<open>"w"\<close>) or
  anything else (\<open>Raw\<close>: the archive the browser engine saves, a truncated file, ...).
\<close>

datatype content = Json json | Raw string

datatype node = Dir | File content

type_synonym store = "path \<Rightarrow> node option"

text \<open>
  Python exceptions by what \<open>except Exception\<close> catches: \<open>Exception n\<close> is an
  instance of a class \<open>n\<close> that derives from \<open>Exception\<close>; \<open>BaseExceptionOnly n\<close>
  is an instance of a class that derives from \<open>BaseException\<close> alone
  (\<open>SystemExit\<close>, \<open>KeyboardInterrupt\<close>, \<open>asyncio.CancelledError\<close>, \<open>GeneratorExit\<close>).
  The outcome of an external call is \<open>None\<close> when it returns and \<open>Some e\<close> when it
  raises \<open>e\<close>.
\<close>

datatype py_exception = Exception string | BaseExceptionOnly string

type_synonym outcome = "py_exception option"

text \<open>
  \<open>Path.mkdir(parents=True, exist_ok=True)\<close> on a disk, where the parent of every
  node is a directory: walking down from the root, a component that is a directory is
  kept, a missing one is created, and a regular file in the way raises
  (\<open>FileExistsError\<close> at the last component, \<open>NotADirectoryError\<close> above it). Access
  rights are not modelled: the only failures are those of the shape of the tree.
\<close>

fun mkdir_parents :: "path \<Rightarrow> string list \<Rightarrow> store \<Rightarrow> outcome \<times> store" where
  "mkdir_parents cur [] s = (None, s)"
| "mkdir_parents cur (c # cs) s =
     (let p = cur @ [c] in
      case s p of
        Some (File _) \<Rightarrow>
          (Some (Exception (if cs = [] then ''FileExistsError'' else ''NotADirectoryError'')), s)
      | Some Dir \<Rightarrow> mkdir_parents p cs s
      | None \<Rightarrow> mkdir_parents p cs (s(p \<mapsto> Dir)))"

definition mkdir :: "path \<Rightarrow> store \<Rightarrow> outcome \<times> store" where
  "mkdir p s = mkdir_parents [] p s"

text \<open>
  \<open>with open(p, "w") as f: json.dump(v, f, indent=2)\<close>: the parent must be a directory
  and \<open>p\<close> must not be one; the file then holds exactly the new document, whatever it
  held before.
\<close>

definition parent_is_dir :: "path \<Rightarrow> store \<Rightarrow> bool" where
  "parent_is_dir p s = (butlast p = [] \<or> s (butlast p) = Some Dir)"

definition dump_to :: "path \<Rightarrow> json \<Rightarrow> store \<Rightarrow> outcome \<times> store" where
  "dump_to p v s =
     (if p = [] \<or> s p = Some Dir then (Some (Exception ''IsADirectoryError''), s)
      else if \<not> parent_is_dir p s
      then (Some (Exception (case s (butlast p) of
                               Some (File c) \<Rightarrow> ''NotADirectoryError''
                             | _ \<Rightarrow> ''FileNotFoundError'')), s)
      else (None, s(p \<mapsto> File (Json v))))"

definition exists :: "path \<Rightarrow> store \<Rightarrow> bool" where
  "exists p s = (s p \<noteq> None)"

text \<open>
  \<open>with open(p) as f: json.load(f)\<close> and \<open>dict.get\<close>. Reading fails on a missing
  path, on a directory and on text that is not a JSON document; \<open>.get\<close> exists on a
  \<open>dict\<close> only. The members of a JSON object are kept in the order of the text; where
  a name occurs more than once, the \<open>dict\<close> that \<open>json.load\<close> builds holds its last
  value.
\<close>

definition json_load :: "path \<Rightarrow> store \<Rightarrow> py_exception + json" where
  "json_load p s =
     (case s p of
        None \<Rightarrow> Inl (Exception ''FileNotFoundError'')
      | Some Dir \<Rightarrow> Inl (Exception ''IsADirectoryError'')
      | Some (File (Raw t)) \<Rightarrow> Inl (Exception ''JSONDecodeError'')
      | Some (File (Json v)) \<Rightarrow> Inr v)"

definition json_get :: "json \<Rightarrow> string \<Rightarrow> json option" where
  "json_get v k = (case v of JObject kvs \<Rightarrow> map_of (rev kvs) k | _ \<Rightarrow> None)"

definition dict_get :: "json \<Rightarrow> string \<Rightarrow> json \<Rightarrow> py_exception + json" where
  "dict_get v k d =
     (case v of
        JObject kvs \<Rightarrow> Inr (case json_get v k of None \<Rightarrow> d | Some x \<Rightarrow> x)
      | _ \<Rightarrow> Inl (Exception ''AttributeError''))"

section \<open>The world: store, clock and the trace of external calls\<close>

record datetime =
  year :: nat
  month :: nat
  day :: nat
  hour :: nat
  minute :: nat
  second :: nat
  microsecond :: nat

text \<open>
  \<open>datetime.isoformat()\<close>: \<open>YYYY-MM-DDTHH:MM:SS\<close>, followed by \<open>.ffffff\<close> when the
  microsecond is not zero. The fields of a \<open>datetime\<close> are within their calendar
  ranges (year at most 9999), so every field fills its width.
\<close>

definition digit :: "nat \<Rightarrow> char" where
  "digit n = ''0123456789'' ! (n mod 10)"

definition pad2 :: "nat \<Rightarrow> string" where
  "pad2 n = [digit (n div 10), digit n]"

definition pad4 :: "nat \<Rightarrow> string" where
  "pad4 n = [digit (n div 1000), digit (n div 100), digit (n div 10), digit n]"

definition pad6 :: "nat \<Rightarrow> string" where
  "pad6 n = [digit (n div 100000), digit (n div 10000), digit (n div 1000),
             digit (n div 100), digit (n div 10), digit n]"

definition isoformat :: "datetime \<Rightarrow> string" where
  "isoformat d =
     pad4 (year d) @ ''-'' @ pad2 (month d) @ ''-'' @ pad2 (day d) @ ''T'' @
     pad2 (hour d) @ '':'' @ pad2 (minute d) @ '':'' @ pad2 (second d) @
     (if microsecond d = 0 then [] else ''.'' @ pad6 (microsecond d))"

text \<open>Python compares two naive \<open>datetime\<close>s field by field, most significant first.\<close>

fun lex_le :: "nat list \<Rightarrow> nat list \<Rightarrow> bool" where
  "lex_le [] ys = True"
| "lex_le (x # xs) [] = False"
| "lex_le (x # xs) (y # ys) = (x < y \<or> (x = y \<and> lex_le xs ys))"

definition dt_fields :: "datetime \<Rightarrow> nat list" where
  "dt_fields d = [year d, month d, day d, hour d, minute d, second d, microsecond d]"

definition dt_le :: "datetime \<Rightarrow> datetime \<Rightarrow> bool" where
  "dt_le a b = lex_le (dt_fields a) (dt_fields b)"

text \<open>
  An f-string before formatting: its literal text (\<open>Lit\<close>, also for an interpolated
  \<open>str\<close>) and the other values it interpolates: \<open>Val v\<close> stands for \<open>str(v)\<close> of a
  Python value and \<open>Str e\<close> for \<open>str(e)\<close> of an exception. A path is interpolated as
  \<open>str(path)\<close>; the capture prompt is whatever Python value the caller passes.
\<close>

datatype seg = Lit string | Val json | Str py_exception

text \<open>
  What the program hands to \<open>Console.print\<close> of the \<open>rich\<close> library: a string, which
  \<open>rich\<close> reads as console markup (\<open>[bold]...[/bold]\<close>); a \<open>Panel\<close> around a two-column
  table, with its title and the cells of its rows, all of them markup; a \<open>Rule\<close> with its
  title, markup again (empty for a bare rule); and a \<open>Text\<close> object, whose parts are
  shown as they are.
\<close>

datatype renderable =
    Markup "seg list"
  | Panel "seg list" "(seg list \<times> seg list) list"
  | Rule "seg list"
  | TextObject "seg list"

text \<open>
  Every call the program makes to something outside itself is logged, in order: console
  output (\<open>Print\<close> for the built-in \<open>print\<close>, \<open>BlankLine\<close> for a \<open>Console.print()\<close>
  without arguments, \<open>ConsolePrint\<close> for a \<open>Console.print\<close> of something), the clock,
  signal registration, the browser-automation engine and the agent runtime.
\<close>

record agent_options =
  opt_allowed_tools :: "string list"
  opt_permission_mode :: string
  opt_cwd :: string
  opt_model :: "string option"

datatype event =
    Print string
  | Now nat
  | SignalHandler string
  | PlaywrightStart
  | ChromiumLaunch
  | NewContext path
  | NewPage
  | Goto string
  | WaitForTimeout nat
  | ContextClose
  | BrowserClose
  | PlaywrightStop
  | ClientConnect agent_options
  | ClientQuery "seg list"
  | ClientDisconnect
  | BlankLine
  | ConsolePrint renderable

record world =
  files :: store
  ticks :: nat
  trace :: "event list"

definition emit :: "event \<Rightarrow> world \<Rightarrow> world" where
  "emit e w = w\<lparr>trace := trace w @ [e]\<rparr>"

definition emits :: "event list \<Rightarrow> world \<Rightarrow> world" where
  "emits es w = w\<lparr>trace := trace w @ es\<rparr>"

text \<open>
  The wall clock is the environment's: \<open>clk n\<close> is what the \<open>n\<close>-th call of
  \<open>datetime.now()\<close> of the process returns.
\<close>

type_synonym clock = "nat \<Rightarrow> datetime"

section \<open>utils.py\<close>

text \<open>\<open>get_project_root()\<close> is a fixed path, the parameter \<open>root\<close> below.\<close>

text \<open>
  \<open>uuid.uuid4()\<close> takes 16 bytes from \<open>os.urandom\<close>, reads them as one big-endian
  128-bit integer and overwrites the variant and version bits; \<open>.hex\<close> is \<open>'%032x'\<close> of
  that integer and \<open>[:12]\<close> its first twelve characters. The random bytes are the
  environment's: the parameter \<open>random\<close>.
\<close>

definition uuid4_int :: "128 word \<Rightarrow> 128 word" where
  "uuid4_int random =
     (let i = random;
          i = i AND NOT (push_bit 48 0xc000);
          i = i OR push_bit 48 0x8000;
          i = i AND NOT (push_bit 64 0xf000);
          i = i OR push_bit 76 4
      in i)"

definition hexdigit :: "nat \<Rightarrow> char" where
  "hexdigit n = ''0123456789abcdef'' ! (n mod 16)"

fun hex_pad :: "nat \<Rightarrow> nat \<Rightarrow> string" where
  "hex_pad 0 n = []"
| "hex_pad (Suc k) n = hex_pad k (n div 16) @ [hexdigit n]"

definition uuid_hex :: "128 word \<Rightarrow> string" where
  "uuid_hex u = hex_pad 32 (unat u)"

definition generate_run_id :: "128 word \<Rightarrow> string" where
  "generate_run_id random = take 12 (uuid_hex (uuid4_int random))"

definition get_har_dir :: "path \<Rightarrow> string \<Rightarrow> world \<Rightarrow> (py_exception + path) \<times> world" where
  "get_har_dir root run_id w =
     (let har_dir = joinpath (joinpath root ''har'') run_id in
      case mkdir har_dir (files w) of
        (Some e, s) \<Rightarrow> (Inl e, w\<lparr>files := s\<rparr>)
      | (None, s) \<Rightarrow> (Inr har_dir, w\<lparr>files := s\<rparr>))"

definition get_scripts_dir :: "path \<Rightarrow> string \<Rightarrow> world \<Rightarrow> (py_exception + path) \<times> world" where
  "get_scripts_dir root run_id w =
     (let scripts_dir = joinpath (joinpath root ''scripts'') run_id in
      case mkdir scripts_dir (files w) of
        (Some e, s) \<Rightarrow> (Inl e, w\<lparr>files := s\<rparr>)
      | (None, s) \<Rightarrow> (Inr scripts_dir, w\<lparr>files := s\<rparr>))"

definition get_timestamp :: "clock \<Rightarrow> world \<Rightarrow> string \<times> world" where
  "get_timestamp clk w =
     (isoformat (clk (ticks w)), emit (Now (ticks w)) (w\<lparr>ticks := Suc (ticks w)\<rparr>))"

section \<open>browser.py: the session recorder\<close>

datatype handle = Handle

record ManualBrowser =
  mb_run_id :: string
  mb_prompt :: string
  mb_har_dir :: path
  mb_har_path :: path
  mb_metadata_path :: path
  mb_playwright :: "handle option"
  mb_browser :: "handle option"
  mb_context :: "handle option"
  mb_start_time :: "string option"

text \<open>
  What the browser-automation engine does in one session: the outcome of each call the
  recorder makes, the polls of the wait loop, and the archive that closing the capture
  context saves.
\<close>

datatype poll = NoPages | PagesOpen outcome

record playwright_env =
  on_playwright_start :: outcome
  on_launch :: outcome
  on_new_context :: outcome
  on_new_page :: outcome
  on_goto :: outcome
  polls :: "poll list"
  on_context_close :: outcome
  on_browser_close :: outcome
  on_playwright_stop :: outcome
  har_archive :: string

definition ManualBrowser_init ::
  "path \<Rightarrow> string \<Rightarrow> string \<Rightarrow> world \<Rightarrow> (py_exception + ManualBrowser) \<times> world" where
  "ManualBrowser_init root run_id prompt w =
     (case get_har_dir root run_id w of
        (Inl e, w1) \<Rightarrow> (Inl e, w1)
      | (Inr har_dir, w1) \<Rightarrow>
          (Inr \<lparr>mb_run_id = run_id, mb_prompt = prompt, mb_har_dir = har_dir,
                mb_har_path = joinpath har_dir ''recording.har'',
                mb_metadata_path = joinpath har_dir ''metadata.json'',
                mb_playwright = None, mb_browser = None, mb_context = None,
                mb_start_time = None\<rparr>, w1))"

definition metadata :: "ManualBrowser \<Rightarrow> string \<Rightarrow> json" where
  "metadata self end_time =
     JObject
       [(''run_id'', JString (mb_run_id self)),
        (''prompt'', JString (mb_prompt self)),
        (''start_time'', (case mb_start_time self of None \<Rightarrow> JNull | Some t \<Rightarrow> JString t)),
        (''end_time'', JString end_time),
        (''har_file'', JString (path_str (mb_har_path self)))]"

definition save_metadata :: "ManualBrowser \<Rightarrow> string \<Rightarrow> world \<Rightarrow> outcome \<times> world" where
  "save_metadata self end_time w =
     (case dump_to (mb_metadata_path self) (metadata self end_time) (files w) of
        (r, s) \<Rightarrow> (r, w\<lparr>files := s\<rparr>))"

text \<open>\<open>try: call() except Exception: pass\<close> lets only a \<open>BaseExceptionOnly\<close> through.\<close>

fun except_Exception_pass :: "outcome \<Rightarrow> outcome" where
  "except_Exception_pass None = None"
| "except_Exception_pass (Some (Exception n)) = None"
| "except_Exception_pass (Some (BaseExceptionOnly n)) = Some (BaseExceptionOnly n)"

text \<open>
  The three calls of the teardown. Closing the capture context is what saves the archive
  (the source's comment: "This saves the HAR file").
\<close>

definition context_close :: "playwright_env \<Rightarrow> path \<Rightarrow> world \<Rightarrow> outcome \<times> world" where
  "context_close env har_path w =
     (let w1 = emit ContextClose w in
      case on_context_close env of
        None \<Rightarrow> (None, w1\<lparr>files := (files w1)(har_path \<mapsto> File (Raw (har_archive env)))\<rparr>)
      | Some e \<Rightarrow> (Some e, w1))"

definition browser_close :: "playwright_env \<Rightarrow> world \<Rightarrow> outcome \<times> world" where
  "browser_close env w = (on_browser_close env, emit BrowserClose w)"

definition playwright_stop :: "playwright_env \<Rightarrow> world \<Rightarrow> outcome \<times> world" where
  "playwright_stop env w = (on_playwright_stop env, emit PlaywrightStop w)"

definition check_mark :: string where
  "check_mark = [CHR 0xE2, CHR 0x9C, CHR 0x93]"

definition newline :: string where
  "newline = [CHR 0x0A]"

definition close_prints :: "ManualBrowser \<Rightarrow> event list" where
  "close_prints self =
     [Print (newline @ check_mark @ '' HAR file saved to: '' @ path_str (mb_har_path self)),
      Print (check_mark @ '' Metadata saved to: '' @ path_str (mb_metadata_path self)),
      Print (newline @ ''Run ID: '' @ mb_run_id self)]"

definition close ::
  "clock \<Rightarrow> playwright_env \<Rightarrow> ManualBrowser \<Rightarrow> world \<Rightarrow>
   (py_exception + path) \<times> ManualBrowser \<times> world" where
  "close clk env self w0 =
     (let (end_time, w1) = get_timestamp clk w0 in
      case (if mb_context self \<noteq> None
            then (case context_close env (mb_har_path self) w1 of
                    (r, w) \<Rightarrow> (except_Exception_pass r, w))
            else (None, w1)) of
        (Some e, w2) \<Rightarrow> (Inl e, self, w2)
      | (None, w2) \<Rightarrow>
     (let self2 = (if mb_context self \<noteq> None then self\<lparr>mb_context := None\<rparr> else self) in
      case (if mb_browser self2 \<noteq> None
            then (case browser_close env w2 of (r, w) \<Rightarrow> (except_Exception_pass r, w))
            else (None, w2)) of
        (Some e, w3) \<Rightarrow> (Inl e, self2, w3)
      | (None, w3) \<Rightarrow>
     (let self3 = (if mb_browser self2 \<noteq> None then self2\<lparr>mb_browser := None\<rparr> else self2) in
      case (if mb_playwright self3 \<noteq> None
            then (case playwright_stop env w3 of (r, w) \<Rightarrow> (except_Exception_pass r, w))
            else (None, w3)) of
        (Some e, w4) \<Rightarrow> (Inl e, self3, w4)
      | (None, w4) \<Rightarrow>
     (let self4 = (if mb_playwright self3 \<noteq> None then self3\<lparr>mb_playwright := None\<rparr>
                   else self3) in
      case save_metadata self4 end_time w4 of
        (Some e, w5) \<Rightarrow> (Inl e, self4, w5)
      | (None, w5) \<Rightarrow>
          (Inr (mb_har_path self4), self4,
           emits (close_prints self4) w5)))))"

text \<open>
  The wait loop of \<open>start\<close>: \<open>while self._context.pages: pages[0].wait_for_timeout(500)\<close>
  inside \<open>try ... except Exception: pass\<close>. The polls are what the engine answers, one
  per iteration; when they run out with a page still open the operator never closes the
  browser and the loop does not return (\<open>None\<close>).
\<close>

fun wait_loop :: "poll list \<Rightarrow> world \<Rightarrow> (outcome \<times> world) option" where
  "wait_loop [] w = None"
| "wait_loop (NoPages # ps) w = Some (None, w)"
| "wait_loop (PagesOpen None # ps) w = wait_loop ps (emit (WaitForTimeout 500) w)"
| "wait_loop (PagesOpen (Some e) # ps) w =
     Some (except_Exception_pass (Some e), emit (WaitForTimeout 500) w)"

definition banner :: "ManualBrowser \<Rightarrow> event list" where
  "banner self =
     [Print ''Starting browser session...'',
      Print (''Run ID: '' @ mb_run_id self),
      Print (''HAR will be saved to: '' @ path_str (mb_har_path self)),
      Print (newline @ ''Prompt: '' @ mb_prompt self),
      Print (newline @ replicate 50 CHR ''=''),
      Print ''Browse the web and interact with APIs you want to capture.'',
      Print ''Close the browser window or press Ctrl+C when done.'',
      Print (replicate 50 CHR ''='' @ newline)]"

definition start ::
  "clock \<Rightarrow> playwright_env \<Rightarrow> ManualBrowser \<Rightarrow> string option \<Rightarrow> world \<Rightarrow>
   ((py_exception + path) \<times> ManualBrowser \<times> world) option" where
  "start clk env self0 start_url w0 =
     (let (t, w1) = get_timestamp clk w0;
          self1 = self0\<lparr>mb_start_time := Some t\<rparr>;
          w2 = emits [SignalHandler ''SIGINT'', SignalHandler ''SIGTERM''] w1;
          w3 = emits (banner self1) w2;
          w4 = emit PlaywrightStart w3 in
      case on_playwright_start env of
        Some e \<Rightarrow> Some (Inl e, self1, w4)
      | None \<Rightarrow>
     (let self2 = self1\<lparr>mb_playwright := Some Handle\<rparr>;
          w5 = emit ChromiumLaunch w4 in
      case on_launch env of
        Some e \<Rightarrow> Some (Inl e, self2, w5)
      | None \<Rightarrow>
     (let self3 = self2\<lparr>mb_browser := Some Handle\<rparr>;
          w6 = emit (NewContext (mb_har_path self3)) w5 in
      case on_new_context env of
        Some e \<Rightarrow> Some (Inl e, self3, w6)
      | None \<Rightarrow>
     (let self4 = self3\<lparr>mb_context := Some Handle\<rparr>;
          w7 = emit NewPage w6 in
      case on_new_page env of
        Some e \<Rightarrow> Some (Inl e, self4, w7)
      | None \<Rightarrow>
     (case (case start_url of
              None \<Rightarrow> (None, w7)
            | Some url \<Rightarrow> if url = [] then (None, w7) else (on_goto env, emit (Goto url) w7)) of
        (Some e, w8) \<Rightarrow> Some (Inl e, self4, w8)
      | (None, w8) \<Rightarrow>
     (case wait_loop (polls env) w8 of
        None \<Rightarrow> None
      | Some (Some e, w9) \<Rightarrow> Some (Inl e, self4, w9)
      | Some (None, w9) \<Rightarrow> Some (close clk env self4 w9)))))))"


section \<open>tui.py: the progress presenter\<close>

text \<open>
  A Python string is modelled by its UTF-8 encoding, one \<open>char\<close> per byte. \<open>len\<close>, slices
  and the width of a format count code points: a code point is a byte that is not a
  continuation byte (\<open>10xxxxxx\<close>), followed by its continuation bytes.
\<close>

definition is_cont :: "char \<Rightarrow> bool" where
  "is_cont c = (128 \<le> (of_char c :: nat) \<and> (of_char c :: nat) < 192)"

function code_points :: "string \<Rightarrow> string list" where
  "code_points [] = []"
| "code_points (c # cs) = (c # takeWhile is_cont cs) # code_points (dropWhile is_cont cs)"
  by pat_completeness auto
termination
  by (relation "measure length") (auto simp: less_Suc_eq_le length_dropWhile_le)

text \<open>\<open>len(s)\<close>, \<open>s[:n]\<close>, \<open>s[-n:]\<close> for a positive \<open>n\<close>, and \<open>f"{s:n}"\<close>.\<close>

definition py_len :: "string \<Rightarrow> nat" where
  "py_len s = length (code_points s)"

definition py_take :: "nat \<Rightarrow> string \<Rightarrow> string" where
  "py_take n s = concat (take n (code_points s))"

definition py_suffix :: "nat \<Rightarrow> string \<Rightarrow> string" where
  "py_suffix n s = concat (drop (py_len s - n) (code_points s))"

definition py_ljust :: "nat \<Rightarrow> string \<Rightarrow> string" where
  "py_ljust n s = s @ replicate (n - py_len s) CHR '' ''"

text \<open>
  \<open>s.replace("\n", " ")\<close> and \<open>s.strip()\<close>, which removes the white space at both ends:
  the code points U+0009 to U+000D, U+001C to U+0020, U+0085, U+00A0, U+1680, U+2000
  to U+200A, U+2028, U+2029, U+202F, U+205F and U+3000.
\<close>

definition replace_newline :: "string \<Rightarrow> string" where
  "replace_newline s = map (\<lambda>c. if c = CHR 0x0A then CHR '' '' else c) s"

definition whitespace :: "string list" where
  "whitespace =
     [[CHR 0x09], [CHR 0x0A], [CHR 0x0B], [CHR 0x0C], [CHR 0x0D],
      [CHR 0x1C], [CHR 0x1D], [CHR 0x1E], [CHR 0x1F], [CHR 0x20],
      [CHR 0xC2, CHR 0x85], [CHR 0xC2, CHR 0xA0], [CHR 0xE1, CHR 0x9A, CHR 0x80],
      [CHR 0xE2, CHR 0x80, CHR 0x80], [CHR 0xE2, CHR 0x80, CHR 0x81],
      [CHR 0xE2, CHR 0x80, CHR 0x82], [CHR 0xE2, CHR 0x80, CHR 0x83],
      [CHR 0xE2, CHR 0x80, CHR 0x84], [CHR 0xE2, CHR 0x80, CHR 0x85],
      [CHR 0xE2, CHR 0x80, CHR 0x86], [CHR 0xE2, CHR 0x80, CHR 0x87],
      [CHR 0xE2, CHR 0x80, CHR 0x88], [CHR 0xE2, CHR 0x80, CHR 0x89],
      [CHR 0xE2, CHR 0x80, CHR 0x8A], [CHR 0xE2, CHR 0x80, CHR 0xA8],
      [CHR 0xE2, CHR 0x80, CHR 0xA9], [CHR 0xE2, CHR 0x80, CHR 0xAF],
      [CHR 0xE2, CHR 0x81, CHR 0x9F], [CHR 0xE3, CHR 0x80, CHR 0x80]]"

definition isspace :: "string \<Rightarrow> bool" where
  "isspace cp = (cp \<in> set whitespace)"

definition py_strip :: "string \<Rightarrow> string" where
  "py_strip s = concat (rev (dropWhile isspace (rev (dropWhile isspace (code_points s)))))"

text \<open>
  \<open>Console.print\<close> is the library's. Reading a string as markup can fail: \<open>rich\<close> raises
  \<open>MarkupError\<close> for a closing tag that matches no open tag, so for text that holds
  \<open>[/x]\<close> where no \<open>[x]\<close> is open; and the program escapes nothing of what it
  interpolates. What the library does with a renderable is the parameter \<open>con\<close>:
  \<open>None\<close> when it prints, the exception when it raises. The call is logged either way.
  A \<open>Console.print()\<close> without arguments renders nothing and ends the line.
\<close>

type_synonym console = "renderable \<Rightarrow> outcome"

definition console_print :: "console \<Rightarrow> renderable \<Rightarrow> world \<Rightarrow> outcome \<times> world" where
  "console_print con r w = (con r, emit (ConsolePrint r) w)"

definition blank_line :: "world \<Rightarrow> world" where
  "blank_line w = emit BlankLine w"

text \<open>One statement after another: the second runs when the first has not raised.\<close>

definition and_then :: "outcome \<times> world \<Rightarrow> (world \<Rightarrow> outcome \<times> world) \<Rightarrow> outcome \<times> world" where
  "and_then r f = (case r of (None, w) \<Rightarrow> f w | (Some e, w) \<Rightarrow> (Some e, w))"

definition TOOL_ICONS :: "(string \<times> string) list" where
  "TOOL_ICONS =
     [(''Read'', [CHR 0xF0, CHR 0x9F, CHR 0x93, CHR 0x96]),
      (''Write'', [CHR 0xE2, CHR 0x9C, CHR 0x8F, CHR 0xEF, CHR 0xB8, CHR 0x8F]),
      (''Edit'', [CHR 0xF0, CHR 0x9F, CHR 0x93, CHR 0x9D]),
      (''Bash'', [CHR 0xF0, CHR 0x9F, CHR 0x92, CHR 0xBB]),
      (''Glob'', [CHR 0xF0, CHR 0x9F, CHR 0x94, CHR 0x8D]),
      (''Grep'', [CHR 0xF0, CHR 0x9F, CHR 0x94, CHR 0x8E]),
      (''WebSearch'', [CHR 0xF0, CHR 0x9F, CHR 0x8C, CHR 0x90]),
      (''WebFetch'', [CHR 0xF0, CHR 0x9F, CHR 0x8C, CHR 0x8D]),
      (''Task'', [CHR 0xF0, CHR 0x9F, CHR 0x93, CHR 0x8B]),
      (''default'', [CHR 0xF0, CHR 0x9F, CHR 0x94, CHR 0xA7])]"

definition TOOL_COLORS :: "(string \<times> string) list" where
  "TOOL_COLORS =
     [(''Read'', ''blue''),
      (''Write'', ''green''),
      (''Edit'', ''yellow''),
      (''Bash'', ''magenta''),
      (''Glob'', ''cyan''),
      (''Grep'', ''cyan''),
      (''WebSearch'', ''bright_blue''),
      (''WebFetch'', ''bright_blue''),
      (''default'', ''white'')]"

text \<open>\<open>table.get(key, table["default"])\<close>.\<close>

definition get_or_default :: "(string \<times> string) list \<Rightarrow> string \<Rightarrow> string" where
  "get_or_default table k =
     (case map_of table k of Some x \<Rightarrow> x | None \<Rightarrow> the (map_of table ''default''))"

text \<open>The glyphs of the presenter: a bullet, a cross, an arrow, sparkles and a magnifier.\<close>

definition bullet :: string where
  "bullet = [CHR 0xE2, CHR 0x97, CHR 0x8F]"

definition cross_mark :: string where
  "cross_mark = [CHR 0xE2, CHR 0x9C, CHR 0x97]"

definition arrow :: string where
  "arrow = [CHR 0xE2, CHR 0x86, CHR 0x92]"

definition sparkles :: string where
  "sparkles = [CHR 0xE2, CHR 0x9C, CHR 0xA8]"

definition magnifier :: string where
  "magnifier = [CHR 0xF0, CHR 0x9F, CHR 0x94, CHR 0x8D]"

definition apostrophe :: string where
  "apostrophe = [CHR 0x27]"

text \<open>The presenter holds the count and the names of the tools started.\<close>

record ClaudeUI =
  ui_verbose :: bool
  ui_tool_count :: nat
  ui_tools_used :: "string list"

definition ClaudeUI_init :: "bool \<Rightarrow> ClaudeUI" where
  "ClaudeUI_init v = \<lparr>ui_verbose = v, ui_tool_count = 0, ui_tools_used = []\<rparr>"

text \<open>
  \<open>header\<close>: the table of the run, a row for the model when there is one, in a panel.
  The identifier, the model and the prompt are interpolated into markup.
\<close>

definition header_panel :: "string \<Rightarrow> json \<Rightarrow> string option \<Rightarrow> renderable" where
  "header_panel run_id prompt model =
     Panel [Lit (''[bold cyan]'' @ magnifier @ '' Reverse API Analysis[/bold cyan]'')]
       ([([Lit ''Run ID''], [Lit ''[yellow]'', Lit run_id, Lit ''[/yellow]''])] @
        (case model of
           None \<Rightarrow> []
         | Some m \<Rightarrow>
             if m = [] then []
             else [([Lit ''Model''], [Lit ''[green]'', Lit m, Lit ''[/green]''])]) @
        [([Lit ''Task''], [Lit ''[white]'', Val prompt, Lit ''[/white]''])])"

definition header :: "console \<Rightarrow> string \<Rightarrow> json \<Rightarrow> string option \<Rightarrow> world \<Rightarrow> outcome \<times> world" where
  "header con run_id prompt model w =
     console_print con (header_panel run_id prompt model) (blank_line w)"

definition analysis_rule :: renderable where
  "analysis_rule = Rule [Lit ''[bold]Claude is analyzing...[/bold]'']"

definition start_analysis :: "console \<Rightarrow> world \<Rightarrow> outcome \<times> world" where
  "start_analysis con w =
     and_then (console_print con analysis_rule (blank_line w)) (\<lambda>w. (None, blank_line w))"

text \<open>
  \<open>_truncate_path\<close> and \<open>_summarize_input\<close>. The fields of a tool input are whatever
  the agent sends: \<open>len\<close> raises \<open>TypeError\<close> for \<open>None\<close>, a number or a boolean, and so
  do the concatenation of a string and a list and the slice of a \<open>dict\<close> (up to
  Python 3.11; \<open>KeyError\<close> from 3.12 on); only a string has \<open>.replace\<close>.
\<close>

definition truncate_path :: "json \<Rightarrow> py_exception + seg list" where
  "truncate_path path =
     (case path of
        JString s \<Rightarrow> Inr [Lit (if py_len s \<le> 60 then s else ''...'' @ py_suffix 57 s)]
      | JArray xs \<Rightarrow> if length xs \<le> 60 then Inr [Val path] else Inl (Exception ''TypeError'')
      | JObject kvs \<Rightarrow>
          if length (remdups (map fst kvs)) \<le> 60 then Inr [Val path]
          else Inl (Exception ''TypeError'')
      | _ \<Rightarrow> Inl (Exception ''TypeError''))"

text \<open>\<open>f"{v[:n]}{'...' if len(v) > n else ''}"\<close>.\<close>

definition shorten :: "nat \<Rightarrow> json \<Rightarrow> py_exception + seg list" where
  "shorten n v =
     (case v of
        JString s \<Rightarrow> Inr [Lit (py_take n s), Lit (if py_len s > n then ''...'' else [])]
      | JArray xs \<Rightarrow> Inr [Val (JArray (take n xs)), Lit (if length xs > n then ''...'' else [])]
      | _ \<Rightarrow> Inl (Exception ''TypeError''))"

definition summarize_input :: "string \<Rightarrow> json \<Rightarrow> py_exception + seg list" where
  "summarize_input tool_name tool_input =
     (if tool_name = ''Read'' then
        (case dict_get tool_input ''file_path'' (JString []) of
           Inl e \<Rightarrow> Inl e
         | Inr path \<Rightarrow>
             (case truncate_path path of
                Inl e \<Rightarrow> Inl e
              | Inr t \<Rightarrow> Inr ([Lit ''[dim]''] @ t @ [Lit ''[/dim]''])))
      else if tool_name = ''Write'' then
        (case dict_get tool_input ''file_path'' (JString []) of
           Inl e \<Rightarrow> Inl e
         | Inr path \<Rightarrow>
             (case truncate_path path of
                Inl e \<Rightarrow> Inl e
              | Inr t \<Rightarrow> Inr ([Lit (''[dim]'' @ arrow @ '' '')] @ t @ [Lit ''[/dim]''])))
      else if tool_name = ''Edit'' then
        (case dict_get tool_input ''file_path'' (JString []) of
           Inl e \<Rightarrow> Inl e
         | Inr path \<Rightarrow>
             (case truncate_path path of
                Inl e \<Rightarrow> Inl e
              | Inr t \<Rightarrow> Inr ([Lit ''[dim]''] @ t @ [Lit ''[/dim]''])))
      else if tool_name = ''Bash'' then
        (case dict_get tool_input ''command'' (JString []) of
           Inl e \<Rightarrow> Inl e
         | Inr (JString c) \<Rightarrow>
             (let cmd = py_strip (replace_newline c)
              in Inr [Lit ''[dim]$ '', Lit (py_take 60 cmd),
                      Lit (if py_len cmd > 60 then ''...'' else []), Lit ''[/dim]''])
         | Inr _ \<Rightarrow> Inl (Exception ''AttributeError''))
      else if tool_name = ''Grep'' \<or> tool_name = ''Glob'' then
        (case dict_get tool_input ''pattern'' (JString []) of
           Inl e \<Rightarrow> Inl e
         | Inr pattern \<Rightarrow>
             Inr [Lit (''[dim]'' @ apostrophe), Val pattern, Lit (apostrophe @ ''[/dim]'')])
      else if tool_name = ''WebSearch'' then
        (case dict_get tool_input ''query'' (JString []) of
           Inl e \<Rightarrow> Inl e
         | Inr query \<Rightarrow>
             (case shorten 50 query of
                Inl e \<Rightarrow> Inl e
              | Inr t \<Rightarrow> Inr ([Lit (''[dim]'' @ apostrophe)] @ t @ [Lit (apostrophe @ ''[/dim]'')])))
      else if tool_name = ''WebFetch'' then
        (case dict_get tool_input ''url'' (JString []) of
           Inl e \<Rightarrow> Inl e
         | Inr url \<Rightarrow>
             (case shorten 60 url of
                Inl e \<Rightarrow> Inl e
              | Inr t \<Rightarrow> Inr ([Lit ''[dim]''] @ t @ [Lit ''[/dim]''])))
      else Inr [])"

text \<open>
  \<open>tool_start\<close> counts the tool and appends its name before it summarises the input,
  so also when the summary or the print raises.
\<close>

definition tool_line :: "string \<Rightarrow> seg list \<Rightarrow> renderable" where
  "tool_line tool_name input_summary =
     (let icon = get_or_default TOOL_ICONS tool_name;
          color = get_or_default TOOL_COLORS tool_name
      in Markup
           ([Lit (''  ['' @ color @ '']'' @ bullet @ ''[/'' @ color @ ''] '' @ icon @
                  '' [bold '' @ color @ '']''),
             Lit (py_ljust 12 tool_name),
             Lit (''[/bold '' @ color @ ''] '')] @ input_summary))"

definition tool_start ::
  "console \<Rightarrow> string \<Rightarrow> json \<Rightarrow> ClaudeUI \<Rightarrow> world \<Rightarrow> outcome \<times> ClaudeUI \<times> world" where
  "tool_start con tool_name tool_input u w =
     (let u' = u\<lparr>ui_tool_count := ui_tool_count u + 1,
                 ui_tools_used := ui_tools_used u @ [tool_name]\<rparr>
      in case summarize_input tool_name tool_input of
           Inl e \<Rightarrow> (Some e, u', w)
         | Inr input_summary \<Rightarrow>
             (case console_print con (tool_line tool_name input_summary) w of
                (r, w') \<Rightarrow> (r, u', w')))"

definition tool_result :: "console \<Rightarrow> string \<Rightarrow> bool \<Rightarrow> world \<Rightarrow> outcome \<times> world" where
  "tool_result con tool_name is_error w =
     (if is_error
      then console_print con
             (Markup [Lit (''  [red]'' @ cross_mark @ '' ''), Lit tool_name, Lit '' failed[/red]'']) w
      else (None, w))"

definition thinking :: "console \<Rightarrow> string \<Rightarrow> ClaudeUI \<Rightarrow> world \<Rightarrow> outcome \<times> world" where
  "thinking con txt u w =
     (if \<not> ui_verbose u then (None, w)
      else if py_len txt < 20 then (None, w)
      else (let display_text = py_strip (replace_newline (py_take 100 txt));
                display_text = (if py_len txt > 100 then display_text @ ''...'' else display_text)
            in console_print con
                 (Markup [Lit (''  [dim]'' @ arrow @ '' ''), Lit display_text, Lit ''[/dim]'']) w))"

definition success :: "console \<Rightarrow> string \<Rightarrow> ClaudeUI \<Rightarrow> world \<Rightarrow> outcome \<times> world" where
  "success con script_path u w =
     and_then (console_print con (Rule []) (blank_line w))
       (\<lambda>w. and_then
          (console_print con
             (TextObject
                [Lit (sparkles @ '' ''), Lit (''Analysis Complete'' @ newline @ newline),
                 Lit ''   Tools: '', Val (JNumber (int (ui_tool_count u))), Lit newline,
                 Lit ''   Script: '', Lit script_path]) w)
          (\<lambda>w. (None, blank_line w)))"

definition error :: "console \<Rightarrow> seg \<Rightarrow> world \<Rightarrow> outcome \<times> world" where
  "error con message w =
     console_print con
       (Markup [Lit (''[bold red]'' @ cross_mark @ '' Error:[/bold red] ''), message])
       (blank_line w)"

section \<open>engineer.py: the analysis orchestrator\<close>

record APIReverseEngineer =
  eng_run_id :: string
  eng_har_path :: path
  eng_prompt :: json
  eng_model :: "string option"
  eng_instructions :: "string option"
  eng_scripts_dir :: path
  eng_ui :: ClaudeUI

text \<open>
  The events of the agent runtime, decoded by their runtime type: the content blocks of
  an assistant message and the messages of the response stream. \<open>is_error\<close> of a tool
  result is an optional boolean; a result message carries \<open>is_error\<close> and an optional
  result text.
\<close>

datatype block =
    ToolUseBlock string json
  | ToolResultBlock "bool option"
  | TextBlock string
  | OtherBlock

datatype message =
    AssistantMessage "block list"
  | ResultMessage bool "string option"
  | OtherMessage

text \<open>
  What the agent runtime does in one session: the outcome of entering the client
  (\<open>__aenter__\<close>), of sending the query, the messages of the response stream and how the
  stream ends (normally, or by raising), and the outcome of leaving the client
  (\<open>__aexit__\<close>). What the agent itself writes to the disk is not part of this program
  and is not modelled.
\<close>

record agent_env =
  on_connect :: outcome
  on_query :: outcome
  responses :: "message list"
  on_stream_end :: outcome
  on_disconnect :: outcome

definition APIReverseEngineer_init ::
  "path \<Rightarrow> string \<Rightarrow> path \<Rightarrow> json \<Rightarrow> string option \<Rightarrow> string option \<Rightarrow> bool \<Rightarrow> world \<Rightarrow>
   (py_exception + APIReverseEngineer) \<times> world" where
  "APIReverseEngineer_init root rid hp p mdl instr v w =
     (case get_scripts_dir root rid w of
        (Inl e, w1) \<Rightarrow> (Inl e, w1)
      | (Inr d, w1) \<Rightarrow>
          (Inr \<lparr>eng_run_id = rid, eng_har_path = hp, eng_prompt = p, eng_model = mdl,
                eng_instructions = instr, eng_scripts_dir = d, eng_ui = ClaudeUI_init v\<rparr>, w1))"

definition backtick :: string where
  "backtick = [CHR 0x60]"

definition unlines :: "string list \<Rightarrow> string" where
  "unlines ls = concat (map (\<lambda>l. l @ newline) ls)"

definition build_analysis_prompt :: "APIReverseEngineer \<Rightarrow> seg list" where
  "build_analysis_prompt self =
     [Lit ''Analyze the HAR file at '', Lit (path_str (eng_har_path self)),
      Lit (unlines
        ['' and reverse engineer the APIs captured.'',
         []]
        @ ''Original user prompt: ''),
      Val (eng_prompt self),
      Lit (unlines
        [[],
         [],
         ''Your task:'',
         ''1. Read and analyze the HAR file to understand the API calls made'',
         ''2. Identify authentication patterns (cookies, tokens, headers)'',
         ''3. Extract request/response patterns for each endpoint'',
         ''4. Generate a clean, well-documented Python script that replicates these API calls'',
         [],
         ''The Python script should:'',
         ''- Use the '' @ backtick @ ''requests'' @ backtick @ '' library'',
         ''- Include proper authentication handling'',
         ''- Have functions for each distinct API endpoint'',
         ''- Include type hints and docstrings'',
         ''- Handle errors gracefully'',
         ''- Be production-ready'',
         []]
        @ ''Save the generated Python script to: ''),
      Lit (path_str (joinpath (eng_scripts_dir self) ''api_client.py'')),
      Lit (unlines
        [[],
         ''Also create a brief README.md in the same folder explaining the APIs discovered.''])]
     @ (case eng_instructions self of
          None \<Rightarrow> []
        | Some i \<Rightarrow>
            if i = [] then []
            else [Lit (newline @ newline @ ''Additional instructions:'' @ newline), Lit i])"

text \<open>The options of the client: \<open>cwd\<close> is the grandparent of the scripts directory.\<close>

definition session_options :: "APIReverseEngineer \<Rightarrow> agent_options" where
  "session_options self =
     \<lparr>opt_allowed_tools = [''Read'', ''Write'', ''Bash'', ''Glob'', ''Grep'', ''WebSearch'',
                           ''WebFetch''],
      opt_permission_mode = ''acceptEdits'',
      opt_cwd = path_str (butlast (butlast (eng_scripts_dir self))),
      opt_model = eng_model self\<rparr>"

text \<open>How control leaves a block of statements: by \<open>return\<close>, by an exception, or at its end.\<close>

datatype 'a flow = Returned 'a | Raised py_exception | Completed

text \<open>
  One content block, and the \<open>for\<close> loop over the blocks of a message, which an
  exception of the presenter leaves at once.
\<close>

fun handle_block ::
  "console \<Rightarrow> block \<Rightarrow> ClaudeUI \<times> world \<Rightarrow> outcome \<times> ClaudeUI \<times> world" where
  "handle_block con (ToolUseBlock name inp) (u, w) = tool_start con name inp u w"
| "handle_block con (ToolResultBlock is_error) (u, w) =
     (case tool_result con ''Tool'' (case is_error of Some True \<Rightarrow> True | _ \<Rightarrow> False) w of
        (r, w') \<Rightarrow> (r, u, w'))"
| "handle_block con (TextBlock txt) (u, w) =
     (case thinking con txt u w of (r, w') \<Rightarrow> (r, u, w'))"
| "handle_block con OtherBlock (u, w) = (None, u, w)"

fun handle_blocks ::
  "console \<Rightarrow> block list \<Rightarrow> ClaudeUI \<times> world \<Rightarrow> outcome \<times> ClaudeUI \<times> world" where
  "handle_blocks con [] (u, w) = (None, u, w)"
| "handle_blocks con (b # bs) (u, w) =
     (case handle_block con b (u, w) of
        (Some e, u', w') \<Rightarrow> (Some e, u', w')
      | (None, u', w') \<Rightarrow> handle_blocks con bs (u', w'))"

text \<open>
  The loop over \<open>client.receive_response()\<close>: the first result message returns from
  \<open>analyze_and_generate\<close>, once the presenter has shown it; a stream that ends without
  one falls out of the loop.
\<close>

fun receive_response ::
  "console \<Rightarrow> APIReverseEngineer \<Rightarrow> message list \<Rightarrow> outcome \<Rightarrow> ClaudeUI \<times> world \<Rightarrow>
   string option flow \<times> ClaudeUI \<times> world" where
  "receive_response con self [] stream_end (u, w) =
     (case stream_end of None \<Rightarrow> (Completed, u, w) | Some e \<Rightarrow> (Raised e, u, w))"
| "receive_response con self (AssistantMessage blocks # ms) stream_end (u, w) =
     (case handle_blocks con blocks (u, w) of
        (Some e, u', w') \<Rightarrow> (Raised e, u', w')
      | (None, u', w') \<Rightarrow> receive_response con self ms stream_end (u', w'))"
| "receive_response con self (ResultMessage is_error result # ms) stream_end (u, w) =
     (if is_error
      then (case error con (Lit (case result of
                                   None \<Rightarrow> ''Unknown error''
                                 | Some r \<Rightarrow> if r = [] then ''Unknown error'' else r)) w of
              (Some e, w') \<Rightarrow> (Raised e, u, w')
            | (None, w') \<Rightarrow> (Returned None, u, w'))
      else (let script_path = path_str (joinpath (eng_scripts_dir self) ''api_client.py'')
            in case success con script_path u w of
                 (Some e, w') \<Rightarrow> (Raised e, u, w')
               | (None, w') \<Rightarrow> (Returned (Some script_path), u, w')))"
| "receive_response con self (OtherMessage # ms) stream_end (u, w) =
     receive_response con self ms stream_end (u, w)"

text \<open>
  \<open>async with ClaudeSDKClient(options=options) as client: ...\<close>. When entering fails
  the body does not run and nothing is left. Otherwise the client is left however the body
  ends, also by \<open>return\<close>; an exception raised on leaving replaces the body's result.
\<close>

definition client_session ::
  "console \<Rightarrow> agent_env \<Rightarrow> APIReverseEngineer \<Rightarrow> agent_options \<Rightarrow> world \<Rightarrow>
   string option flow \<times> ClaudeUI \<times> world" where
  "client_session con env self options w0 =
     (let w1 = emit (ClientConnect options) w0 in
      case on_connect env of
        Some e \<Rightarrow> (Raised e, eng_ui self, w1)
      | None \<Rightarrow>
          (let w2 = emit (ClientQuery (build_analysis_prompt self)) w1;
               (body, u, w3) =
                 (case on_query env of
                    Some e \<Rightarrow> (Raised e, eng_ui self, w2)
                  | None \<Rightarrow>
                      receive_response con self (responses env) (on_stream_end env)
                        (eng_ui self, w2));
               w4 = emit ClientDisconnect w3
           in case on_disconnect env of
                Some e \<Rightarrow> (Raised e, u, w4)
              | None \<Rightarrow> (body, u, w4)))"

definition install_hint :: renderable where
  "install_hint =
     Markup [Lit (newline @ ''[dim]Make sure Claude Code CLI is installed: '' @
                  ''npm install -g @anthropic-ai/claude-code[/dim]'')]"

text \<open>
  \<open>analyze_and_generate\<close>. The header and the rule are shown before the \<open>try\<close>: an
  exception there leaves the method. Inside the \<open>try\<close>, \<open>except Exception as e\<close>
  catches what the client and the presenter raise, unless it derives from
  \<open>BaseException\<close> alone; the handler shows \<open>str(e)\<close> and a hint, and what these two
  prints raise leaves the method as well.
\<close>

definition analyze_and_generate ::
  "console \<Rightarrow> agent_env \<Rightarrow> APIReverseEngineer \<Rightarrow> world \<Rightarrow>
   (py_exception + string option) \<times> APIReverseEngineer \<times> world" where
  "analyze_and_generate con env self w0 =
     (case header con (eng_run_id self) (eng_prompt self) (eng_model self) w0 of
        (Some e, w1) \<Rightarrow> (Inl e, self, w1)
      | (None, w1) \<Rightarrow>
     (case start_analysis con w1 of
        (Some e, w2) \<Rightarrow> (Inl e, self, w2)
      | (None, w2) \<Rightarrow>
     (case client_session con env self (session_options self) w2 of
        (Returned r, u, w3) \<Rightarrow> (Inr r, self\<lparr>eng_ui := u\<rparr>, w3)
      | (Raised (Exception n), u, w3) \<Rightarrow>
          (case and_then (error con (Str (Exception n)) w3) (console_print con install_hint) of
             (Some e, w4) \<Rightarrow> (Inl e, self\<lparr>eng_ui := u\<rparr>, w4)
           | (None, w4) \<Rightarrow> (Inr None, self\<lparr>eng_ui := u\<rparr>, w4))
      | (Raised (BaseExceptionOnly n), u, w3) \<Rightarrow>
          (Inl (BaseExceptionOnly n), self\<lparr>eng_ui := u\<rparr>, w3)
      | (Completed, u, w3) \<Rightarrow> (Inr None, self\<lparr>eng_ui := u\<rparr>, w3))))"

definition run_reverse_engineering ::
  "console \<Rightarrow> path \<Rightarrow> agent_env \<Rightarrow> string \<Rightarrow> path \<Rightarrow> json \<Rightarrow> string option \<Rightarrow> string option \<Rightarrow>
   bool \<Rightarrow> world \<Rightarrow> (py_exception + string option) \<times> world" where
  "run_reverse_engineering con root env rid hp p mdl instr v w =
     (case APIReverseEngineer_init root rid hp p mdl instr v w of
        (Inl e, w1) \<Rightarrow> (Inl e, w1)
      | (Inr engineer, w1) \<Rightarrow>
          (case analyze_and_generate con env engineer w1 of (r, self', w2) \<Rightarrow> (r, w2)))"

section \<open>cli.py: the analysis command\<close>

text \<open>The end of both commands: \<open>if script_path: console.print(...)\<close>.\<close>

definition report ::
  "console \<Rightarrow> (py_exception + string option) \<times> world \<Rightarrow> (py_exception + unit) \<times> world" where
  "report con rw =
     (case rw of
        (Inl e, w) \<Rightarrow> (Inl e, w)
      | (Inr None, w) \<Rightarrow> (Inr (), w)
      | (Inr (Some script_path), w) \<Rightarrow>
          if script_path = [] then (Inr (), w)
          else (case console_print con
                       (Markup [Lit (newline @ ''[green]'' @ check_mark @
                                     ''[/green] Generated API script: [cyan]''),
                                Lit script_path, Lit ''[/cyan]'']) w of
                  (Some e, w') \<Rightarrow> (Inl e, w')
                | (None, w') \<Rightarrow> (Inr (), w')))"

definition default_prompt :: json where
  "default_prompt = JString ''Reverse engineer the captured APIs''"

definition load_prompt :: "path \<Rightarrow> store \<Rightarrow> py_exception + json" where
  "load_prompt metadata_file s =
     (if exists metadata_file s
      then (case json_load metadata_file s of
              Inl e \<Rightarrow> Inl e
            | Inr md \<Rightarrow> dict_get md ''prompt'' default_prompt)
      else Inr default_prompt)"

text \<open>
  The two lines of the command when the archive is missing; the identifier and the path
  are interpolated into markup.
\<close>

definition not_found_line :: "string \<Rightarrow> renderable" where
  "not_found_line rid = Markup [Lit ''[red]Error:[/red] HAR file not found for run ID: '', Lit rid]"

definition expected_path_line :: "path \<Rightarrow> renderable" where
  "expected_path_line hp = Markup [Lit ''[dim]Expected path: '', Lit (path_str hp), Lit ''[/dim]'']"

definition engineer ::
  "console \<Rightarrow> path \<Rightarrow> agent_env \<Rightarrow> string \<Rightarrow> string option \<Rightarrow> string option \<Rightarrow> world \<Rightarrow>
   (py_exception + unit) \<times> world" where
  "engineer con root env rid mdl instructions w =
     (case get_har_dir root rid w of
        (Inl e, w1) \<Rightarrow> (Inl e, w1)
      | (Inr har_dir, w1) \<Rightarrow>
          (let hp = joinpath har_dir ''recording.har'';
               metadata_file = joinpath har_dir ''metadata.json''
           in if \<not> exists hp (files w1)
              then (case and_then (console_print con (not_found_line rid) w1)
                                  (console_print con (expected_path_line hp)) of
                      (Some e, w2) \<Rightarrow> (Inl e, w2)
                    | (None, w2) \<Rightarrow> (Inr (), w2))
              else (case load_prompt metadata_file (files w1) of
                      Inl e \<Rightarrow> (Inl e, w1)
                    | Inr p \<Rightarrow>
                        report con
                          (run_reverse_engineering con root env rid hp p mdl instructions True w1))))"


section \<open>Notions used in the statements and the proofs\<close>

text \<open>The recorder after its teardown, and the recorder as \<open>start\<close> has set it up.\<close>

definition closed_handles :: "ManualBrowser \<Rightarrow> ManualBrowser" where
  "closed_handles self = self\<lparr>mb_context := None, mb_browser := None, mb_playwright := None\<rparr>"

text \<open>\<open>open(p, "w")\<close> succeeds: the parent is a directory and \<open>p\<close> is not one.\<close>

definition writable :: "path \<Rightarrow> store \<Rightarrow> bool" where
  "writable p s = (p \<noteq> [] \<and> s p \<noteq> Some Dir \<and> parent_is_dir p s)"

text \<open>An outcome that \<open>try ... except Exception\<close> lets pass: a return, or an \<open>Exception\<close>.\<close>

fun swallowed :: "outcome \<Rightarrow> bool" where
  "swallowed None = True"
| "swallowed (Some (Exception n)) = True"
| "swallowed (Some (BaseExceptionOnly n)) = False"

definition opened :: "clock \<Rightarrow> ManualBrowser \<Rightarrow> world \<Rightarrow> ManualBrowser" where
  "opened clk self w =
     self\<lparr>mb_start_time := Some (isoformat (clk (ticks w))), mb_playwright := Some Handle,
          mb_browser := Some Handle, mb_context := Some Handle\<rparr>"

text \<open>The artifact paths of a run, below the project root.\<close>

definition recording_path :: "path \<Rightarrow> string \<Rightarrow> path" where
  "recording_path root run_id = joinpath (joinpath (joinpath root ''har'') run_id) ''recording.har''"

definition metadata_path :: "path \<Rightarrow> string \<Rightarrow> path" where
  "metadata_path root run_id = joinpath (joinpath (joinpath root ''har'') run_id) ''metadata.json''"

text \<open>
  The two shapes of \<open>isoformat()\<close>, \<open>YYYY-MM-DDTHH:MM:SS\<close> with or without
  \<open>.ffffff\<close>; in a template \<open>d\<close> stands for any decimal digit.
\<close>

fun matches :: "string \<Rightarrow> string \<Rightarrow> bool" where
  "matches [] [] = True"
| "matches (t # ts) (c # cs) =
     ((if t = CHR ''d'' then c \<in> set ''0123456789'' else c = t) \<and> matches ts cs)"
| "matches ts cs = False"

definition iso8601 :: "string \<Rightarrow> bool" where
  "iso8601 s = (matches ''dddd-dd-ddTdd:dd:dd'' s \<or> matches ''dddd-dd-ddTdd:dd:dd.dddddd'' s)"

text \<open>In a trace, the first \<open>a\<close> comes before the first \<open>b\<close>, and there is a \<open>b\<close>.\<close>

fun precedes :: "event \<Rightarrow> event \<Rightarrow> event list \<Rightarrow> bool" where
  "precedes a b [] = False"
| "precedes a b (e # es) =
     (if e = b then False else if e = a then b \<in> set es else precedes a b es)"

definition har_dir_path :: "path \<Rightarrow> string \<Rightarrow> path" where
  "har_dir_path root run_id = joinpath (joinpath root ''har'') run_id"

definition scripts_dir_path :: "path \<Rightarrow> string \<Rightarrow> path" where
  "scripts_dir_path root run_id = joinpath (joinpath root ''scripts'') run_id"

definition api_client_path :: "path \<Rightarrow> string \<Rightarrow> path" where
  "api_client_path root run_id = joinpath (scripts_dir_path root run_id) ''api_client.py''"

text \<open>No regular file sits at the path or above it, so that \<open>mkdir\<close> does not fail.\<close>

fun creatable_from :: "path \<Rightarrow> string list \<Rightarrow> store \<Rightarrow> bool" where
  "creatable_from cur [] s = True"
| "creatable_from cur (c # cs) s =
     ((case s (cur @ [c]) of Some (File x) \<Rightarrow> False | _ \<Rightarrow> True) \<and>
      creatable_from (cur @ [c]) cs s)"

definition creatable :: "path \<Rightarrow> store \<Rightarrow> bool" where
  "creatable p s = creatable_from [] p s"

text \<open>The terminal event of a response stream: its first result message, if any.\<close>

fun terminal :: "message list \<Rightarrow> (bool \<times> string option) option" where
  "terminal [] = None"
| "terminal (ResultMessage is_error result # ms) = Some (is_error, result)"
| "terminal (m # ms) = terminal ms"

text \<open>What the analysis command prints when the archive is missing.\<close>

definition missing_archive_report :: "path \<Rightarrow> string \<Rightarrow> event list" where
  "missing_archive_report root run_id =
     [ConsolePrint (not_found_line run_id),
      ConsolePrint (expected_path_line (recording_path root run_id))]"

text \<open>
  The console has rendered a stretch of the trace: none of its \<open>Console.print\<close> calls
  raised. And the presenter can summarise every tool input of a response stream:
  \<open>_summarize_input\<close> raises on none of them.
\<close>

fun accepted :: "console \<Rightarrow> event \<Rightarrow> bool" where
  "accepted con (ConsolePrint r) = (con r = None)"
| "accepted con e = True"

definition rendered :: "console \<Rightarrow> event list \<Rightarrow> bool" where
  "rendered con es = list_all (accepted con) es"

fun block_ok :: "block \<Rightarrow> bool" where
  "block_ok (ToolUseBlock name inp) = (case summarize_input name inp of Inl e \<Rightarrow> False | Inr t \<Rightarrow> True)"
| "block_ok b = True"

fun message_ok :: "message \<Rightarrow> bool" where
  "message_ok (AssistantMessage blocks) = list_all block_ok blocks"
| "message_ok m = True"

definition summarizable :: "message list \<Rightarrow> bool" where
  "summarizable ms = list_all message_ok ms"

text \<open>The events that a call has added to the trace.\<close>

definition added :: "world \<Rightarrow> world \<Rightarrow> event list" where
  "added w w' = drop (length (trace w)) (trace w')"

text \<open>
  A call leaves the files alone and adds events to the trace; and when the presenter
  could summarise what it was given (\<open>ok\<close>) and the console has rendered what was
  added, the call has ended with \<open>x\<close>.
\<close>

definition follows :: "console \<Rightarrow> bool \<Rightarrow> 'a \<Rightarrow> world \<Rightarrow> 'a \<times> world \<Rightarrow> bool" where
  "follows con ok x w r =
     (files (snd r) = files w \<and>
      (\<exists>es. trace (snd r) = trace w @ es \<and> (ok \<and> rendered con es \<longrightarrow> fst r = x)))"

text \<open>
  What the response loop comes to when the presenter raises nothing: the return at the
  first result message, or the end of the stream.
\<close>

definition stream_flow :: "APIReverseEngineer \<Rightarrow> message list \<Rightarrow> outcome \<Rightarrow> string option flow" where
  "stream_flow self ms stream_end =
     (case terminal ms of
        Some (True, r) \<Rightarrow> Returned None
      | Some (False, r) \<Rightarrow>
          Returned (Some (path_str (joinpath (eng_scripts_dir self) ''api_client.py'')))
      | None \<Rightarrow> (case stream_end of None \<Rightarrow> Completed | Some e \<Rightarrow> Raised e))"

definition session_flow :: "agent_env \<Rightarrow> APIReverseEngineer \<Rightarrow> string option flow" where
  "session_flow env self =
     (case on_connect env of
        Some e \<Rightarrow> Raised e
      | None \<Rightarrow>
          (case on_disconnect env of
             Some e \<Rightarrow> Raised e
           | None \<Rightarrow>
               (case on_query env of
                  Some e \<Rightarrow> Raised e
                | None \<Rightarrow> stream_flow self (responses env) (on_stream_end env))))"

text \<open>The orchestrator that the analysis command sets up for a run.\<close>

definition built_engineer ::
  "path \<Rightarrow> string \<Rightarrow> json \<Rightarrow> string option \<Rightarrow> string option \<Rightarrow> APIReverseEngineer" where
  "built_engineer root run_id p mdl instructions =
     \<lparr>eng_run_id = run_id, eng_har_path = recording_path root run_id, eng_prompt = p,
      eng_model = mdl, eng_instructions = instructions,
      eng_scripts_dir = scripts_dir_path root run_id, eng_ui = ClaudeUI_init True\<rparr>"

definition lower_hex :: "char \<Rightarrow> bool" where
  "lower_hex c = (c \<in> set ''0123456789abcdef'')"

text \<open>
  A \<open>datetime\<close> object: every field within its calendar range. Python orders strings
  by code point, character by character; \<open>dec_pad k n\<close> is \<open>n\<close> in \<open>k\<close> decimal digits.
\<close>

definition valid_datetime :: "datetime \<Rightarrow> bool" where
  "valid_datetime d =
     (1 \<le> year d \<and> year d \<le> 9999 \<and> 1 \<le> month d \<and> month d \<le> 12 \<and>
      1 \<le> day d \<and> day d \<le> 31 \<and> hour d < 24 \<and> minute d < 60 \<and> second d < 60 \<and>
      microsecond d < 1000000)"

fun str_le :: "string \<Rightarrow> string \<Rightarrow> bool" where
  "str_le [] ys = True"
| "str_le (x # xs) [] = False"
| "str_le (x # xs) (y # ys) =
     ((of_char x :: nat) < of_char y \<or> (x = y \<and> str_le xs ys))"

fun dec_pad :: "nat \<Rightarrow> nat \<Rightarrow> string" where
  "dec_pad 0 n = []"
| "dec_pad (Suc k) n = dec_pad k (n div 10) @ [digit n]"


section \<open>A sample session\<close>

text \<open>
  One run, used to evaluate the model: a project at \<open>/srv/reverse-api\<close>, an empty disk,
  the run \<open>a1b2c3d4e5f6\<close> with the prompt "capture login flow", a clock that advances by
  a microsecond per reading, a browser session that the operator closes after one poll,
  and an agent session that reads the archive and reports success; and variants of the
  two sessions in which calls fail.
\<close>

text \<open>
  The console of the sample: like \<open>rich\<close>, it refuses markup in which a closing tag
  (\<open>[/name]\<close>, or \<open>[/]\<close>) matches no open tag, and prints everything else. A tag is a
  bracket whose text starts with a lower-case letter, \<open>#\<close>, \<open>@\<close> or \<open>/\<close> and holds no
  opening bracket. The text of a \<open>MarkupError\<close> quotes the tag that was refused, so the
  console refuses it again wherever it is interpolated; the other values and exceptions
  of the sample bring no bracket.
\<close>

fun seg_text :: "seg \<Rightarrow> string" where
  "seg_text (Lit s) = s"
| "seg_text (Val (JString s)) = s"
| "seg_text (Val v) = []"
| "seg_text (Str e) = []"

fun unmatched :: "string list \<Rightarrow> string option \<Rightarrow> string \<Rightarrow> bool" where
  "unmatched open_tags tag [] = False"
| "unmatched open_tags None (c # cs) =
     unmatched open_tags (if c = CHR ''['' then Some [] else None) cs"
| "unmatched open_tags (Some t) (c # cs) =
     (if c = CHR ''['' then unmatched open_tags (Some []) cs
      else if c = CHR '']'' then
        (case t of
           [] \<Rightarrow> unmatched open_tags None cs
         | h # name \<Rightarrow>
             if h = CHR ''/'' then
               (if name = [] then (if open_tags = [] then True else unmatched (tl open_tags) None cs)
                else if name \<in> set open_tags then unmatched (remove1 name open_tags) None cs
                else True)
             else if h \<in> set ''abcdefghijklmnopqrstuvwxyz#@'' then unmatched (t # open_tags) None cs
             else unmatched open_tags None cs)
      else unmatched open_tags (Some (t @ [c])) cs)"

fun markups :: "renderable \<Rightarrow> seg list list" where
  "markups (Markup m) = [m]"
| "markups (Panel title rows) = title # concat (map (\<lambda>(k, v). [k, v]) rows)"
| "markups (Rule title) = [title]"
| "markups (TextObject parts) = []"

definition refused :: "seg list \<Rightarrow> bool" where
  "refused m =
     (if Str (Exception ''MarkupError'') \<in> set m then True
      else unmatched [] None (concat (map seg_text m)))"

definition console0 :: console where
  "console0 r = (if list_ex refused (markups r) then Some (Exception ''MarkupError'') else None)"

definition root0 :: path where "root0 = [''srv'', ''reverse-api'']"
definition rid0 :: string where "rid0 = ''a1b2c3d4e5f6''"
definition prompt0 :: string where "prompt0 = ''capture login flow''"
definition url0 :: string where "url0 = ''https://example.com/login''"

definition clk0 :: clock where
  "clk0 n = \<lparr>year = 2026, month = 11, day = 4, hour = 12, minute = 0, second = 0,
             microsecond = min n 999999\<rparr>"

text \<open>
  A wall clock on the night when daylight saving time ends: read at 01:59:59, and again
  a little later, after it was set back by an hour at 02:00, at 01:00:05.
\<close>

definition clk_back :: clock where
  "clk_back n =
     (if n = 0
      then \<lparr>year = 2026, month = 11, day = 1, hour = 1, minute = 59, second = 59, microsecond = 0\<rparr>
      else \<lparr>year = 2026, month = 11, day = 1, hour = 1, minute = 0, second = 5, microsecond = 0\<rparr>)"

definition world0 :: world where
  "world0 = \<lparr>files = Map.empty, ticks = 0, trace = []\<rparr>"

definition recorder0 :: ManualBrowser where
  "recorder0 =
     \<lparr>mb_run_id = rid0, mb_prompt = prompt0,
      mb_har_dir = root0 @ [''har'', rid0],
      mb_har_path = root0 @ [''har'', rid0, ''recording.har''],
      mb_metadata_path = root0 @ [''har'', rid0, ''metadata.json''],
      mb_playwright = None, mb_browser = None, mb_context = None, mb_start_time = None\<rparr>"

definition world1 :: world where
  "world1 = snd (ManualBrowser_init root0 rid0 prompt0 world0)"

definition session_ok :: playwright_env where
  "session_ok =
     \<lparr>on_playwright_start = None, on_launch = None, on_new_context = None, on_new_page = None,
      on_goto = None, polls = [PagesOpen None, NoPages], on_context_close = None,
      on_browser_close = None, on_playwright_stop = None, har_archive = ''HAR''\<rparr>"

definition session_teardown_fails :: playwright_env where
  "session_teardown_fails =
     session_ok\<lparr>on_context_close := Some (Exception ''TargetClosedError''),
                on_browser_close := Some (Exception ''TargetClosedError''),
                on_playwright_stop := Some (Exception ''Error'')\<rparr>"

definition recorder_live :: ManualBrowser where
  "recorder_live = opened clk0 recorder0 world1"

definition recording0 :: path where
  "recording0 = [''srv'', ''reverse-api'', ''har'', ''a1b2c3d4e5f6'', ''recording.har'']"

definition metadata0 :: path where
  "metadata0 = [''srv'', ''reverse-api'', ''har'', ''a1b2c3d4e5f6'', ''metadata.json'']"

definition recorder_closed :: ManualBrowser where
  "recorder_closed = recorder0\<lparr>mb_start_time := Some ''2026-11-04T12:00:00''\<rparr>"

definition sample_run :: "((py_exception + path) \<times> ManualBrowser \<times> world) option" where
  "sample_run = start clk0 session_ok recorder0 (Some url0) world1"

definition world2 :: world where
  "world2 = snd (snd (the sample_run))"

definition recorder_back :: ManualBrowser where
  "recorder_back = recorder0\<lparr>mb_start_time := Some ''2026-11-01T01:59:59''\<rparr>"

definition world_back :: world where
  "world_back = snd (snd (the (start clk_back session_ok recorder0 (Some url0) world1)))"

definition agent_ok :: agent_env where
  "agent_ok =
     \<lparr>on_connect = None, on_query = None,
      responses =
        [AssistantMessage
           [TextBlock ''I will read the HAR file first.'',
            ToolUseBlock ''Read'' (JObject [(''file_path'', JString ''recording.har'')]),
            ToolResultBlock None],
         ResultMessage False (Some ''done'')],
      on_stream_end = None, on_disconnect = None\<rparr>"

definition agent_unreachable :: agent_env where
  "agent_unreachable = agent_ok\<lparr>on_connect := Some (Exception ''CLINotFoundError'')\<rparr>"

definition agent_disconnect_fails :: agent_env where
  "agent_disconnect_fails = agent_ok\<lparr>on_disconnect := Some (Exception ''RuntimeError'')\<rparr>"

definition agent_cancelled :: agent_env where
  "agent_cancelled = agent_ok\<lparr>on_query := Some (BaseExceptionOnly ''CancelledError'')\<rparr>"

text \<open>
  Two more agent sessions that end in a result message signalling success: in one the
  agent writes of a route \<open>[/users]\<close>, in the other it starts a shell tool whose command
  is null.
\<close>

definition agent_writes_tag :: agent_env where
  "agent_writes_tag =
     agent_ok\<lparr>responses :=
        [AssistantMessage [TextBlock ''The route [/users] lists the accounts.''],
         ResultMessage False (Some ''done'')]\<rparr>"

definition agent_null_command :: agent_env where
  "agent_null_command =
     agent_ok\<lparr>responses :=
        [AssistantMessage [ToolUseBlock ''Bash'' (JObject [(''command'', JNull)])],
         ResultMessage False (Some ''done'')]\<rparr>"

definition world_unstarted :: world where
  "world_unstarted = snd (snd (close clk0 session_ok recorder0 world1))"

definition engineer0 :: APIReverseEngineer where
  "engineer0 =
     \<lparr>eng_run_id = rid0, eng_har_path = recording0, eng_prompt = JString prompt0,
      eng_model = None, eng_instructions = None,
      eng_scripts_dir = [''srv'', ''reverse-api'', ''scripts'', ''a1b2c3d4e5f6''],
      eng_ui = ClaudeUI_init True\<rparr>"

definition world3 :: world where
  "world3 = snd (APIReverseEngineer_init root0 rid0 recording0 (JString prompt0) None None True world2)"

definition script0 :: string where
  "script0 = ''/srv/reverse-api/scripts/a1b2c3d4e5f6/api_client.py''"

definition random0 :: "128 word" where
  "random0 = 0xa1b2c3d4e5f60123456789abcdef0123"

definition random1 :: "128 word" where
  "random1 = 0xa1b2c3d4e5f6ffffffffffffffffffff"


section \<open>Lemmas about the store and the recorder\<close>

lemma butlast_joinpath: "butlast (joinpath p c) = p"
  by (simp add: joinpath_def)

lemma joinpath_neq: "joinpath p c \<noteq> []" "joinpath p c \<noteq> p"
  by (simp_all add: joinpath_def)

lemma joinpath_inject: "joinpath p c = joinpath q d \<longleftrightarrow> p = q \<and> c = d"
  by (simp add: joinpath_def)

lemma mkdir_parents_dir:
  "mkdir_parents cur cs s = (None, s') \<Longrightarrow> cs \<noteq> [] \<Longrightarrow> s' (cur @ cs) = Some Dir"
proof (induction cs arbitrary: cur s)
  case Nil
  then show ?case by simp
next
  case (Cons c cs)
  show ?case
  proof (cases "cs = []")
    case True
    with Cons.prems show ?thesis
      by (auto simp: Let_def split: option.splits node.splits)
  next
    case False
    from Cons.prems have "mkdir_parents (cur @ [c]) cs s = (None, s') \<or>
        mkdir_parents (cur @ [c]) cs (s(cur @ [c] \<mapsto> Dir)) = (None, s')"
      by (auto simp: Let_def split: option.splits node.splits)
    then have "s' ((cur @ [c]) @ cs) = Some Dir"
      using Cons.IH False by blast
    then show ?thesis by simp
  qed
qed

lemma dump_to_writable:
  "writable p s \<Longrightarrow> dump_to p v s = (None, s(p \<mapsto> File (Json v)))"
  by (simp add: writable_def dump_to_def)

lemma dump_to_None:
  "dump_to p v s = (None, s') \<Longrightarrow> writable p s \<and> s' = s(p \<mapsto> File (Json v))"
  by (auto simp: writable_def dump_to_def split: if_splits)

lemma writable_upd_self: "writable p s \<Longrightarrow> writable p (s(p \<mapsto> File c))"
  by (auto simp: writable_def parent_is_dir_def)

lemma swallowed_pass: "swallowed r \<Longrightarrow> except_Exception_pass r = None"
  by (cases r rule: swallowed.cases) simp_all

lemma init_Inr:
  assumes "ManualBrowser_init root run_id prompt w = (Inr self, w1)"
  shows "self = \<lparr>mb_run_id = run_id, mb_prompt = prompt,
                  mb_har_dir = joinpath (joinpath root ''har'') run_id,
                  mb_har_path = joinpath (joinpath (joinpath root ''har'') run_id) ''recording.har'',
                  mb_metadata_path = joinpath (joinpath (joinpath root ''har'') run_id) ''metadata.json'',
                  mb_playwright = None, mb_browser = None, mb_context = None,
                  mb_start_time = None\<rparr>"
    and "files w1 (joinpath (joinpath root ''har'') run_id) = Some Dir"
    and "ticks w1 = ticks w" and "trace w1 = trace w"
proof -
  let ?d = "joinpath (joinpath root ''har'') run_id"
  from assms obtain s where m: "mkdir ?d (files w) = (None, s)" and w1: "w1 = w\<lparr>files := s\<rparr>"
    by (auto simp: ManualBrowser_init_def get_har_dir_def Let_def split: prod.splits option.splits)
  from assms show "self = \<lparr>mb_run_id = run_id, mb_prompt = prompt,
                  mb_har_dir = ?d, mb_har_path = joinpath ?d ''recording.har'',
                  mb_metadata_path = joinpath ?d ''metadata.json'',
                  mb_playwright = None, mb_browser = None, mb_context = None,
                  mb_start_time = None\<rparr>"
    by (auto simp: ManualBrowser_init_def get_har_dir_def Let_def split: prod.splits option.splits)
  have "?d \<noteq> []" by (simp add: joinpath_def)
  with m have "s ([] @ ?d) = Some Dir"
    unfolding mkdir_def by (rule mkdir_parents_dir)
  with w1 show "files w1 ?d = Some Dir" by simp
  from w1 show "ticks w1 = ticks w" "trace w1 = trace w" by simp_all
qed

lemma close_teardown_done:
  assumes "mb_context self = None" "mb_browser self = None" "mb_playwright self = None"
    and "writable (mb_metadata_path self) (files w)"
  shows "close clk env self w =
     (Inr (mb_har_path self), self,
      \<lparr>files = (files w)(mb_metadata_path self \<mapsto>
                 File (Json (metadata self (isoformat (clk (ticks w)))))),
       ticks = Suc (ticks w),
       trace = trace w @ Now (ticks w) # close_prints self\<rparr>)"
  using assms
  by (simp add: close_def get_timestamp_def save_metadata_def emit_def emits_def
      dump_to_writable)

lemma close_Inr:
  assumes "close clk env self w = (Inr p, self', w')"
  shows "p = mb_har_path self \<and> self' = closed_handles self \<and>
         writable (mb_metadata_path self) (files w') \<and>
         files w' (mb_metadata_path self) =
           Some (File (Json (metadata (closed_handles self) (isoformat (clk (ticks w)))))) \<and>
         ticks w' = Suc (ticks w)"
  using assms
  apply (simp add: close_def get_timestamp_def save_metadata_def emit_def emits_def
      context_close_def browser_close_def playwright_stop_def closed_handles_def Let_def
      split: if_splits prod.splits option.splits)
  apply (auto dest!: dump_to_None simp: writable_upd_self metadata_def)
  done

lemma wait_loop_frame:
  "wait_loop ps w = Some (r, w') \<Longrightarrow>
   files w' = files w \<and> ticks w' = ticks w \<and> (\<exists>es. trace w' = trace w @ es)"
proof (induction ps w rule: wait_loop.induct)
  case (3 ps w)
  then show ?case by (auto simp: emit_def)
qed (auto simp: emit_def)

lemma wait_loop_returns:
  "(\<exists>p \<in> set ps. p \<noteq> PagesOpen None) \<Longrightarrow> wait_loop ps w \<noteq> None"
  by (induction ps w rule: wait_loop.induct) auto

lemma start_Inr:
  assumes "start clk env self0 url w = Some (Inr p, self1, w2)"
  shows "\<exists>w9. close clk env (opened clk self0 w) w9 = (Inr p, self1, w2) \<and>
              ticks w9 = Suc (ticks w) \<and> files w9 = files w"
  using assms
  by (auto simp: start_def get_timestamp_def emit_def emits_def opened_def Let_def
      split: option.splits prod.splits if_splits dest!: wait_loop_frame)

lemma close_frame:
  assumes "close clk env self w = (r, self', w')"
  shows "(\<exists>es. trace w' = trace w @ Now (ticks w) # es) \<and> mb_start_time self' = mb_start_time self \<and>
         mb_run_id self' = mb_run_id self \<and> mb_prompt self' = mb_prompt self \<and>
         mb_har_path self' = mb_har_path self \<and> mb_metadata_path self' = mb_metadata_path self"
  using assms
  by (auto simp: close_def get_timestamp_def save_metadata_def emit_def emits_def
      context_close_def browser_close_def playwright_stop_def Let_def
      split: if_splits prod.splits option.splits)

lemma banner_cong:
  "mb_run_id a = mb_run_id b \<Longrightarrow> mb_prompt a = mb_prompt b \<Longrightarrow> mb_har_path a = mb_har_path b \<Longrightarrow>
   banner a = banner b"
  by (simp add: banner_def)

lemma init0: "ManualBrowser_init root0 rid0 prompt0 world0 = (Inr recorder0, world1)"
  by (simp add: world1_def ManualBrowser_init_def get_har_dir_def mkdir_def joinpath_def
      root0_def rid0_def world0_def recorder0_def Let_def)

lemma world1_files:
  "files world1 = [[''srv''] \<mapsto> Dir, [''srv'', ''reverse-api''] \<mapsto> Dir,
     [''srv'', ''reverse-api'', ''har''] \<mapsto> Dir,
     [''srv'', ''reverse-api'', ''har'', ''a1b2c3d4e5f6''] \<mapsto> Dir]"
  "ticks world1 = 0" "trace world1 = []"
  by (simp_all add: world1_def ManualBrowser_init_def get_har_dir_def mkdir_def joinpath_def
      root0_def rid0_def world0_def recorder0_def Let_def)

lemma digit_is_digit: "digit n \<in> set ''0123456789''"
proof -
  have "n mod 10 < length ''0123456789''" by simp
  then show ?thesis unfolding digit_def by (rule nth_mem)
qed

lemma iso8601_isoformat: "iso8601 (isoformat d)"
  using digit_is_digit by (simp add: iso8601_def isoformat_def pad2_def pad4_def pad6_def)

lemma metadata_closed: "metadata (closed_handles self) t = metadata self t"
  by (simp add: metadata_def closed_handles_def)

lemma json_load_upd: "json_load p (s(p \<mapsto> File (Json v))) = Inr v"
  by (simp add: json_load_def)

lemmas sample_defs = root0_def rid0_def prompt0_def url0_def clk0_def recorder0_def
  session_ok_def recording0_def metadata0_def recorder_closed_def

lemmas run_defs = start_def close_def get_timestamp_def save_metadata_def emit_def emits_def
  context_close_def browser_close_def playwright_stop_def dump_to_def parent_is_dir_def
  joinpath_def isoformat_def pad2_def pad4_def pad6_def digit_def Let_def

lemma sample_started:
  "start clk0 session_ok recorder0 (Some url0) world1 = Some (Inr recording0, recorder_closed, world2)"
  unfolding world2_def sample_run_def
  by (simp add: run_defs sample_defs world1_files)

lemma world2_trace:
  "trace world2 =
     [Now 0, SignalHandler ''SIGINT'', SignalHandler ''SIGTERM''] @ banner recorder0 @
     [PlaywrightStart, ChromiumLaunch, NewContext recording0, NewPage, Goto url0,
      WaitForTimeout 500, Now 1, ContextClose, BrowserClose, PlaywrightStop] @
     close_prints recorder0"
  unfolding world2_def sample_run_def
  by (simp add: run_defs sample_defs world1_files banner_def close_prints_def)

lemma world2_metadata:
  "json_load metadata0 (files world2) =
     Inr (JObject
       [(''run_id'', JString ''a1b2c3d4e5f6''),
        (''prompt'', JString ''capture login flow''),
        (''start_time'', JString ''2026-11-04T12:00:00''),
        (''end_time'', JString ''2026-11-04T12:00:00.000001''),
        (''har_file'', JString ''/srv/reverse-api/har/a1b2c3d4e5f6/recording.har'')])"
  unfolding world2_def sample_run_def
  by (simp add: run_defs sample_defs world1_files json_load_def metadata_def path_str_def)

lemma clk0_valid: "valid_datetime (clk0 i)"
  by (simp add: clk0_def valid_datetime_def)

lemma clk_back_valid: "valid_datetime (clk_back i)"
  by (simp add: clk_back_def valid_datetime_def)

lemma opened_fields:
  "mb_har_path (opened clk self w) = mb_har_path self"
  "mb_metadata_path (opened clk self w) = mb_metadata_path self"
  "mb_run_id (opened clk self w) = mb_run_id self"
  "mb_prompt (opened clk self w) = mb_prompt self"
  "mb_start_time (opened clk self w) = Some (isoformat (clk (ticks w)))"
  by (simp_all add: opened_def)

lemma closed_handles_fields:
  "mb_har_path (closed_handles self) = mb_har_path self"
  "mb_metadata_path (closed_handles self) = mb_metadata_path self"
  "mb_run_id (closed_handles self) = mb_run_id self"
  "mb_prompt (closed_handles self) = mb_prompt self"
  "mb_start_time (closed_handles self) = mb_start_time self"
  "mb_context (closed_handles self) = None"
  "mb_browser (closed_handles self) = None"
  "mb_playwright (closed_handles self) = None"
  by (simp_all add: closed_handles_def)

lemma init_paths:
  assumes "ManualBrowser_init root run_id prompt w = (Inr self, w1)"
  shows "mb_har_path self = recording_path root run_id"
    and "mb_metadata_path self = metadata_path root run_id"
    and "mb_run_id self = run_id" and "mb_prompt self = prompt"
  by (simp_all add: init_Inr(1) [OF assms] recording_path_def metadata_path_def)

text \<open>What a session that ran to its end leaves behind.\<close>

lemma start_Inr_final:
  assumes init: "ManualBrowser_init root run_id prompt w = (Inr self0, w1)"
    and started: "start clk env self0 url w1 = Some (Inr p, self1, w2)"
  shows "p = recording_path root run_id"
    and "self1 = closed_handles (opened clk self0 w1)"
    and "writable (metadata_path root run_id) (files w2)"
    and "files w2 (metadata_path root run_id) =
           Some (File (Json (metadata self1 (isoformat (clk (Suc (ticks w1)))))))"
proof -
  from start_Inr [OF started] obtain w9 where
    c: "close clk env (opened clk self0 w1) w9 = (Inr p, self1, w2)" and
    t: "ticks w9 = Suc (ticks w1)" by blast
  note r = close_Inr [OF c]
  note ip = init_paths [OF init]
  from r show "p = recording_path root run_id" by (simp add: opened_fields ip)
  from r show s1: "self1 = closed_handles (opened clk self0 w1)" by simp
  from r show "writable (metadata_path root run_id) (files w2)" by (simp add: opened_fields ip)
  from r t s1 show "files w2 (metadata_path root run_id) =
           Some (File (Json (metadata self1 (isoformat (clk (Suc (ticks w1)))))))"
    by (simp add: opened_fields ip)
qed

lemma mkdir_parents_frame:
  "mkdir_parents cur cs s = (r, s') \<Longrightarrow>
   s' q = s q \<or> (s q = None \<and> s' q = Some Dir \<and> length cur < length q \<and>
                  length q \<le> length cur + length cs \<and> q = cur @ take (length q - length cur) cs)"
proof (induction cs arbitrary: cur s)
  case Nil
  then show ?case by simp
next
  case (Cons c cs)
  let ?p = "cur @ [c]"
  show ?case
  proof (cases "s ?p")
    case None
    with Cons.prems have m: "mkdir_parents ?p cs (s(?p \<mapsto> Dir)) = (r, s')"
      by (simp add: Let_def)
    from Cons.IH [OF m] show ?thesis
    proof
      assume eq: "s' q = (s(?p \<mapsto> Dir)) q"
      show ?thesis
      proof (cases "q = ?p")
        case True
        with eq None show ?thesis by simp
      next
        case False
        with eq show ?thesis by simp
      qed
    next
      assume a: "(s(?p \<mapsto> Dir)) q = None \<and> s' q = Some Dir \<and> length ?p < length q \<and>
        length q \<le> length ?p + length cs \<and> q = ?p @ take (length q - length ?p) cs"
      then have "q \<noteq> ?p" by auto
      with a have "s q = None" by simp
      moreover from a have "length q - length cur = Suc (length q - length ?p)" by auto
      then have "take (length q - length cur) (c # cs) = c # take (length q - length ?p) cs"
        by simp
      with a have "q = cur @ take (length q - length cur) (c # cs)" by simp
      ultimately show ?thesis using a by auto
    qed
  next
    case (Some n)
    show ?thesis
    proof (cases n)
      case Dir
      with Some Cons.prems have m: "mkdir_parents ?p cs s = (r, s')"
        by (simp add: Let_def)
      from Cons.IH [OF m] show ?thesis
      proof
        assume "s' q = s q"
        then show ?thesis ..
      next
        assume a: "s q = None \<and> s' q = Some Dir \<and> length ?p < length q \<and>
          length q \<le> length ?p + length cs \<and> q = ?p @ take (length q - length ?p) cs"
        then have "length q - length cur = Suc (length q - length ?p)" by auto
        then have "take (length q - length cur) (c # cs) = c # take (length q - length ?p) cs"
          by simp
        with a have "q = cur @ take (length q - length cur) (c # cs)" by simp
        with a show ?thesis by auto
      qed
    next
      case (File x)
      with Some Cons.prems show ?thesis by (simp add: Let_def)
    qed
  qed
qed

lemma creatable_from_upd:
  "length p \<le> length cur \<Longrightarrow> creatable_from cur cs (s(p \<mapsto> x)) = creatable_from cur cs s"
  by (induction cs arbitrary: cur) auto

lemma mkdir_parents_creatable:
  "fst (mkdir_parents cur cs s) = None \<longleftrightarrow> creatable_from cur cs s"
  by (induction cs arbitrary: cur s)
     (auto simp: Let_def creatable_from_upd split: option.splits node.splits)

lemma mkdir_creatable: "fst (mkdir p s) = None \<longleftrightarrow> creatable p s"
  by (simp add: mkdir_def creatable_def mkdir_parents_creatable)

lemma creatable_from_cong:
  "(\<And>q. s' q = s q \<or> (s q = None \<and> s' q = Some Dir)) \<Longrightarrow>
   creatable_from cur cs s' = creatable_from cur cs s"
proof (induction cs arbitrary: cur)
  case Nil
  then show ?case by simp
next
  case (Cons c cs)
  from Cons.prems [of "cur @ [c]"]
  have "(case s' (cur @ [c]) of Some (File x) \<Rightarrow> False | _ \<Rightarrow> True) =
        (case s (cur @ [c]) of Some (File x) \<Rightarrow> False | _ \<Rightarrow> True)"
    by (elim disjE conjE) simp_all
  with Cons.IH [OF Cons.prems] show ?case by simp
qed

lemma mkdir_frame:
  assumes "mkdir p s = (r, s')"
  shows "s q \<noteq> None \<Longrightarrow> s' q = s q"
    and "length p < length q \<Longrightarrow> s' q = s q"
    and "length q = length p \<Longrightarrow> q \<noteq> p \<Longrightarrow> s' q = s q"
  using mkdir_parents_frame [OF assms [unfolded mkdir_def], of q] by auto

lemma creatable_after_mkdir:
  assumes "mkdir p s = (r, s')"
  shows "creatable q s' = creatable q s"
  unfolding creatable_def
proof (rule creatable_from_cong)
  fix x
  from mkdir_parents_frame [OF assms [unfolded mkdir_def], of x]
  show "s' x = s x \<or> (s x = None \<and> s' x = Some Dir)" by auto
qed

lemma mkdir_dir:
  assumes "mkdir p s = (None, s')" "p \<noteq> []"
  shows "s' p = Some Dir"
  using mkdir_parents_dir [OF assms(1) [unfolded mkdir_def] assms(2)] by simp


text \<open>
  The presenter and the analysis: every call leaves the files alone and extends the
  trace, and it raises only when the console refuses a print or a tool input cannot be
  summarised.
\<close>

lemma rendered_simps [simp]:
  "rendered con [] = True"
  "rendered con (e # es) = (accepted con e \<and> rendered con es)"
  "rendered con (xs @ ys) = (rendered con xs \<and> rendered con ys)"
  by (simp_all add: rendered_def)

lemma followsI:
  assumes "files w' = files w" and "trace w' = trace w @ es"
    and "ok \<Longrightarrow> rendered con es \<Longrightarrow> x' = x"
  shows "follows con ok x w (x', w')"
  using assms by (auto simp: follows_def)

lemma followsE:
  assumes "follows con ok x w (x', w')"
  obtains es where "files w' = files w" and "trace w' = trace w @ es"
    and "ok \<and> rendered con es \<longrightarrow> x' = x"
  using assms by (auto simp: follows_def)

lemma follows_None: "follows con ok None w (None, w)"
  by (rule followsI [where es = "[]"]) simp_all

lemma follows_None_blank: "follows con ok None w (None, blank_line w)"
  by (rule followsI [where es = "[BlankLine]"]) (simp_all add: blank_line_def emit_def)

lemma follows_Some: "follows con False x w (y, w)"
  by (rule followsI [where es = "[]"]) simp_all

lemma console_print_follows: "follows con ok None w (console_print con r w)"
  unfolding console_print_def
  by (rule followsI [where es = "[ConsolePrint r]"]) (simp_all add: emit_def)

lemma follows_blank:
  assumes "follows con ok x (blank_line w) r"
  shows "follows con ok x w r"
proof -
  obtain x' w' where r: "r = (x', w')" by (cases r)
  from assms [unfolded r] obtain es where
    "files w' = files (blank_line w)" "trace w' = trace (blank_line w) @ es"
    "ok \<and> rendered con es \<longrightarrow> x' = x"
    by (auto elim: followsE)
  then show ?thesis
    unfolding r
    by (intro followsI [where es = "BlankLine # es"]) (simp_all add: blank_line_def emit_def)
qed

lemma follows_trans:
  assumes "follows con ok' y w (y', w1)" and "follows con ok x w1 r"
  shows "follows con ok x w r"
proof -
  obtain x' w' where r: "r = (x', w')" by (cases r)
  from assms(1) obtain es1 where 1: "files w1 = files w" "trace w1 = trace w @ es1"
    by (auto elim: followsE)
  from assms(2) [unfolded r] obtain es2 where
    2: "files w' = files w1" "trace w' = trace w1 @ es2" "ok \<and> rendered con es2 \<longrightarrow> x' = x"
    by (auto elim: followsE)
  from 1 2 show ?thesis
    unfolding r by (intro followsI [where es = "es1 @ es2"]) simp_all
qed

lemma follows_and_then:
  assumes "follows con ok None w r" and "\<And>w'. follows con ok None w' (f w')"
  shows "follows con ok None w (and_then r f)"
proof -
  obtain x w1 where r: "r = (x, w1)" by (cases r)
  show ?thesis
  proof (cases x)
    case None
    with assms(1) r have "follows con ok None w (None :: outcome, w1)" by simp
    then have "follows con ok None w (f w1)" using assms(2) by (rule follows_trans)
    with None r show ?thesis by (simp add: and_then_def)
  next
    case (Some e)
    with assms(1) r show ?thesis by (simp add: and_then_def)
  qed
qed

lemma header_follows: "follows con ok None w (header con rid p mdl w)"
  unfolding header_def by (rule follows_blank) (rule console_print_follows)

lemma start_analysis_follows: "follows con ok None w (start_analysis con w)"
  unfolding start_analysis_def
  by (rule follows_blank) (intro follows_and_then console_print_follows follows_None_blank)

lemma tool_result_follows: "follows con ok None w (tool_result con n b w)"
  by (simp add: tool_result_def console_print_follows follows_None)

lemma thinking_follows: "follows con ok None w (thinking con txt u w)"
  by (simp add: thinking_def Let_def console_print_follows follows_None)

lemma success_follows: "follows con ok None w (success con sp u w)"
  unfolding success_def
  by (rule follows_blank) (intro follows_and_then console_print_follows follows_None_blank)

lemma error_follows: "follows con ok None w (error con m w)"
  unfolding error_def by (rule follows_blank) (rule console_print_follows)

lemma tool_start_follows:
  assumes "tool_start con n i u w = (r, u', w')"
  shows "follows con (block_ok (ToolUseBlock n i)) None w (r, w')"
proof (cases "summarize_input n i")
  case (Inl e)
  with assms have "w' = w" by (simp add: tool_start_def Let_def)
  with Inl show ?thesis by (simp add: follows_Some)
next
  case (Inr t)
  with assms have "console_print con (tool_line n t) w = (r, w')"
    by (auto simp: tool_start_def Let_def split: prod.splits)
  then show ?thesis using console_print_follows [of con _ w "tool_line n t"] by simp
qed

lemma handle_block_follows:
  assumes "handle_block con b (u, w) = (r, u', w')"
  shows "follows con (block_ok b) None w (r, w')"
proof (cases b)
  case (ToolUseBlock n i)
  with assms have "tool_start con n i u w = (r, u', w')" by simp
  from tool_start_follows [OF this] ToolUseBlock show ?thesis by simp
next
  case (ToolResultBlock e)
  with assms tool_result_follows [of con True w "''Tool''" "case e of Some True \<Rightarrow> True | _ \<Rightarrow> False"]
  show ?thesis by (auto split: prod.splits)
next
  case (TextBlock t)
  with assms thinking_follows [of con True w t u] show ?thesis by (auto split: prod.splits)
next
  case OtherBlock
  with assms show ?thesis by (auto simp: follows_None)
qed

lemma handle_blocks_follows:
  assumes "handle_blocks con bs (u, w) = (r, u', w')"
  shows "follows con (list_all block_ok bs) None w (r, w')"
  using assms
proof (induction bs arbitrary: u w)
  case Nil
  then show ?case by (simp add: follows_None)
next
  case (Cons b bs)
  obtain r1 u1 w1 where h: "handle_block con b (u, w) = (r1, u1, w1)" by (metis prod_cases3)
  note f = handle_block_follows [OF h]
  show ?case
  proof (cases r1)
    case None
    with Cons.prems h have "handle_blocks con bs (u1, w1) = (r, u', w')" by simp
    from Cons.IH [OF this] have "follows con (list_all block_ok bs) None w1 (r, w')" .
    with f [unfolded None] have "follows con (list_all block_ok bs) None w (r, w')"
      by (rule follows_trans)
    then show ?thesis by (auto simp: follows_def)
  next
    case (Some e)
    with Cons.prems h have "r = r1" "w' = w1" by simp_all
    with f show ?thesis by (auto simp: follows_def)
  qed
qed

lemma receive_response_follows:
  assumes "receive_response con self ms e (u, w) = (fl, u', w')"
  shows "follows con (summarizable ms) (stream_flow self ms e) w (fl, w')"
  using assms
proof (induction con self ms e "(u, w)" arbitrary: u w rule: receive_response.induct)
  case (1 con self stream_end u w)
  then show ?case
    by (auto simp: stream_flow_def intro!: followsI [where es = "[]"] split: option.splits)
next
  case (2 con self blocks ms stream_end u w)
  obtain r1 u1 w1 where h: "handle_blocks con blocks (u, w) = (r1, u1, w1)" by (metis prod_cases3)
  note f = handle_blocks_follows [OF h]
  show ?case
  proof (cases r1)
    case None
    with 2(2) h have "receive_response con self ms stream_end (u1, w1) = (fl, u', w')" by simp
    from 2(1) [OF h [symmetric] None refl this]
    have "follows con (summarizable ms) (stream_flow self ms stream_end) w1 (fl, w')" .
    with f [unfolded None]
    have "follows con (summarizable ms) (stream_flow self ms stream_end) w (fl, w')"
      by (rule follows_trans)
    then show ?thesis by (auto simp: follows_def summarizable_def stream_flow_def)
  next
    case (Some x)
    with 2(2) h have "fl = Raised x" "w' = w1" by simp_all
    with f Some show ?thesis by (auto simp: follows_def summarizable_def)
  qed
next
  case (3 con self is_error result ms stream_end u w)
  show ?case
  proof (cases is_error)
    case True
    let ?m = "Lit (case result of None \<Rightarrow> ''Unknown error''
                   | Some r \<Rightarrow> if r = [] then ''Unknown error'' else r)"
    obtain r1 w1 where h: "error con ?m w = (r1, w1)" by (cases "error con ?m w")
    from error_follows [of con True w ?m] h have f: "follows con True None w (r1, w1)" by simp
    from 3 True h have "w' = w1" "fl = (case r1 of None \<Rightarrow> Returned None | Some x \<Rightarrow> Raised x)"
      by (auto split: option.splits)
    with f True show ?thesis by (auto simp: follows_def stream_flow_def)
  next
    case False
    let ?p = "path_str (joinpath (eng_scripts_dir self) ''api_client.py'')"
    obtain r1 w1 where h: "success con ?p u w = (r1, w1)" by (cases "success con ?p u w")
    from success_follows [of con True w ?p u] h have f: "follows con True None w (r1, w1)" by simp
    from 3 False h have "w' = w1" "fl = (case r1 of None \<Rightarrow> Returned (Some ?p) | Some x \<Rightarrow> Raised x)"
      by (auto simp: Let_def split: option.splits)
    with f False show ?thesis by (auto simp: follows_def stream_flow_def)
  qed
next
  case (4 con self ms stream_end u w)
  then show ?case by (simp add: summarizable_def stream_flow_def)
qed

lemma client_session_follows:
  assumes "client_session con env self opts w = (fl, u', w')"
  shows "follows con (summarizable (responses env)) (session_flow env self) w (fl, w')"
proof (cases "on_connect env")
  case (Some e)
  with assms show ?thesis
    by (auto simp: client_session_def session_flow_def emit_def Let_def
        intro!: followsI [where es = "[ClientConnect opts]"])
next
  case None
  define w2 where "w2 = emit (ClientQuery (build_analysis_prompt self)) (emit (ClientConnect opts) w)"
  have t2: "trace w2 = trace w @ [ClientConnect opts, ClientQuery (build_analysis_prompt self)]"
    "files w2 = files w"
    by (simp_all add: w2_def emit_def)
  obtain body u3 w3 where b: "(case on_query env of
        Some e \<Rightarrow> (Raised e, eng_ui self, w2)
      | None \<Rightarrow> receive_response con self (responses env) (on_stream_end env) (eng_ui self, w2)) =
      (body, u3, w3)"
    by (metis prod_cases3)
  have fb: "follows con (summarizable (responses env))
              (case on_query env of Some e \<Rightarrow> Raised e
               | None \<Rightarrow> stream_flow self (responses env) (on_stream_end env)) w2 (body, w3)"
  proof (cases "on_query env")
    case None
    with b show ?thesis by (simp add: receive_response_follows)
  next
    case (Some e)
    with b show ?thesis by (auto intro!: followsI [where es = "[]"])
  qed
  from assms None b have r: "w' = emit ClientDisconnect w3"
    "fl = (case on_disconnect env of Some e \<Rightarrow> Raised e | None \<Rightarrow> body)"
    unfolding client_session_def Let_def w2_def [symmetric]
    by (auto split: option.splits)
  from fb obtain es where e: "files w3 = files w2" "trace w3 = trace w2 @ es"
    "summarizable (responses env) \<and> rendered con es \<longrightarrow>
       body = (case on_query env of Some e \<Rightarrow> Raised e
               | None \<Rightarrow> stream_flow self (responses env) (on_stream_end env))"
    by (auto elim: followsE)
  show ?thesis
    unfolding r
    by (rule followsI [where es = "[ClientConnect opts, ClientQuery (build_analysis_prompt self)] @ es @ [ClientDisconnect]"])
       (use e t2 None in \<open>auto simp: emit_def session_flow_def split: option.splits\<close>)
qed

lemma client_session_trace:
  "\<exists>rest. trace (snd (snd (client_session con env self opts w))) =
     trace w @ [ClientConnect opts] @
     (if on_connect env = None then [ClientQuery (build_analysis_prompt self)] else []) @ rest"
proof (cases "on_connect env")
  case (Some e)
  then show ?thesis by (simp add: client_session_def emit_def Let_def)
next
  case None
  define w2 where "w2 = emit (ClientQuery (build_analysis_prompt self)) (emit (ClientConnect opts) w)"
  have t2: "trace w2 = trace w @ [ClientConnect opts, ClientQuery (build_analysis_prompt self)]"
    by (simp add: w2_def emit_def)
  obtain fl u3 w3 where r: "receive_response con self (responses env) (on_stream_end env)
      (eng_ui self, w2) = (fl, u3, w3)"
    by (metis prod_cases3)
  from receive_response_follows [OF r] obtain es where "trace w3 = trace w2 @ es"
    by (auto elim: followsE)
  with None t2 r show ?thesis
    unfolding client_session_def Let_def w2_def [symmetric]
    by (auto simp: emit_def split: option.splits prod.splits)
qed

text \<open>The value that \<open>analyze_and_generate\<close> comes to when the presenter raises nothing.\<close>

lemma analyze_follows:
  assumes "analyze_and_generate con env self w = (res, self', w')"
  shows "follows con (summarizable (responses env))
           (case session_flow env self of
              Returned r \<Rightarrow> Inr r
            | Raised (Exception n) \<Rightarrow> Inr None
            | Raised (BaseExceptionOnly n) \<Rightarrow> Inl (BaseExceptionOnly n)
            | Completed \<Rightarrow> Inr None) w (res, w')"
proof -
  let ?x = "case session_flow env self of
              Returned r \<Rightarrow> Inr r
            | Raised (Exception n) \<Rightarrow> Inr None
            | Raised (BaseExceptionOnly n) \<Rightarrow> Inl (BaseExceptionOnly n)
            | Completed \<Rightarrow> Inr None"
  let ?ok = "summarizable (responses env)"
  obtain r1 w1 where h: "header con (eng_run_id self) (eng_prompt self) (eng_model self) w = (r1, w1)"
    by (cases "header con (eng_run_id self) (eng_prompt self) (eng_model self) w")
  from header_follows [of con ?ok w "eng_run_id self" "eng_prompt self" "eng_model self"] h
  have f1: "follows con ?ok None w (r1, w1)" by simp
  show ?thesis
  proof (cases r1)
    case (Some e)
    with assms h have "w' = w1" by (simp add: analyze_and_generate_def)
    with f1 Some show ?thesis by (auto simp: follows_def)
  next
    case None
    note r1 = this
    obtain r2 w2 where s: "start_analysis con w1 = (r2, w2)" by (cases "start_analysis con w1")
    from start_analysis_follows [of con ?ok w1] s have "follows con ?ok None w1 (r2, w2)" by simp
    with f1 have f2: "follows con ?ok None w (r2, w2)" by (rule follows_trans)
    show ?thesis
    proof (cases r2)
      case (Some e)
      with assms h s r1 have "w' = w2" by (simp add: analyze_and_generate_def)
      with f2 Some show ?thesis by (auto simp: follows_def)
    next
      case None
      note r2 = this
      obtain fl u3 w3 where c: "client_session con env self (session_options self) w2 = (fl, u3, w3)"
        by (metis prod_cases3)
      from f2 [unfolded r2] client_session_follows [OF c]
      have "follows con ?ok (session_flow env self) w (fl, w3)" by (rule follows_trans)
      then obtain es3 where e3: "files w3 = files w" "trace w3 = trace w @ es3"
        "?ok \<and> rendered con es3 \<longrightarrow> session_flow env self = fl"
        by (auto elim: followsE)
      note a = assms [unfolded analyze_and_generate_def]
      show ?thesis
      proof (cases fl)
        case (Returned r)
        with a h s r1 r2 c have "res = Inr r" "w' = w3" by simp_all
        with Returned e3 show ?thesis by (intro followsI [where es = es3]) auto
      next
        case Completed
        with a h s r1 r2 c have "res = Inr None" "w' = w3" by simp_all
        with Completed e3 show ?thesis by (intro followsI [where es = es3]) auto
      next
        case (Raised x)
        show ?thesis
        proof (cases x)
          case (BaseExceptionOnly n)
          with a h s r1 r2 c Raised have "res = Inl (BaseExceptionOnly n)" "w' = w3" by simp_all
          with BaseExceptionOnly Raised e3 show ?thesis by (intro followsI [where es = es3]) auto
        next
          case (Exception n)
          obtain r4 w4 where p: "and_then (error con (Str (Exception n)) w3)
              (console_print con install_hint) = (r4, w4)"
            by (cases "and_then (error con (Str (Exception n)) w3) (console_print con install_hint)")
          have "follows con ?ok None w3 (and_then (error con (Str (Exception n)) w3)
              (console_print con install_hint))"
            by (intro follows_and_then error_follows console_print_follows)
          with p have f4: "follows con ?ok None w3 (r4, w4)" by simp
          from a h s r1 r2 c Raised Exception p have w: "w' = w4"
            and r: "res = (case r4 of None \<Rightarrow> Inr None | Some e \<Rightarrow> Inl e)"
            by (auto split: option.splits)
          from f4 obtain es4 where e4: "files w4 = files w3" "trace w4 = trace w3 @ es4"
            "?ok \<and> rendered con es4 \<longrightarrow> r4 = None"
            by (auto elim: followsE)
          show ?thesis
            unfolding w r
            by (rule followsI [where es = "es3 @ es4"])
               (use e3 e4 Raised Exception in \<open>auto split: option.splits\<close>)
        qed
      qed
    qed
  qed
qed


lemma analyze_trace_header:
  "\<exists>rest. trace (snd (snd (analyze_and_generate con env self w))) =
     trace w @ [BlankLine,
                ConsolePrint (header_panel (eng_run_id self) (eng_prompt self) (eng_model self))] @ rest"
proof -
  let ?hp = "header_panel (eng_run_id self) (eng_prompt self) (eng_model self)"
  define w1 where "w1 = emit (ConsolePrint ?hp) (blank_line w)"
  have t1: "trace w1 = trace w @ [BlankLine, ConsolePrint ?hp]"
    by (simp add: w1_def blank_line_def emit_def)
  have h: "header con (eng_run_id self) (eng_prompt self) (eng_model self) w = (con ?hp, w1)"
    by (simp add: header_def console_print_def w1_def)
  show ?thesis
  proof (cases "con ?hp")
    case (Some e)
    with h t1 show ?thesis by (simp add: analyze_and_generate_def)
  next
    case None
    note c1 = this
    obtain r2 w2 where s: "start_analysis con w1 = (r2, w2)" by (cases "start_analysis con w1")
    from start_analysis_follows [of con True w1] s obtain es2 where
      t2: "trace w2 = trace w1 @ es2" by (auto elim: followsE)
    show ?thesis
    proof (cases r2)
      case (Some e)
      with h c1 s t1 t2 show ?thesis by (simp add: analyze_and_generate_def)
    next
      case None
      obtain res self' w' where a: "analyze_and_generate con env self w = (res, self', w')"
        by (metis prod_cases3)
      obtain fl u3 w3 where c: "client_session con env self (session_options self) w2 = (fl, u3, w3)"
        by (metis prod_cases3)
      from client_session_follows [OF c] obtain es3 where t3: "trace w3 = trace w2 @ es3"
        by (auto elim: followsE)
      have "\<exists>es4. trace w' = trace w3 @ es4"
      proof (cases "\<exists>n. fl = Raised (Exception n)")
        case False
        with a h c1 s None c have "w' = w3"
          by (auto simp: analyze_and_generate_def split: flow.splits py_exception.splits)
        then show ?thesis by simp
      next
        case True
        then obtain n where fl: "fl = Raised (Exception n)" by blast
        have "follows con True None w3 (and_then (error con (Str (Exception n)) w3)
              (console_print con install_hint))"
          by (intro follows_and_then error_follows console_print_follows)
        then obtain es4 where "trace (snd (and_then (error con (Str (Exception n)) w3)
              (console_print con install_hint))) = trace w3 @ es4"
          by (auto simp: follows_def)
        moreover from a h c1 s None c fl have "w' = snd (and_then (error con (Str (Exception n)) w3)
              (console_print con install_hint))"
          by (auto simp: analyze_and_generate_def split: prod.splits option.splits)
        ultimately show ?thesis by blast
      qed
      with t1 t2 t3 a show ?thesis by auto
    qed
  qed
qed

lemma analyze_trace:
  assumes "con (header_panel (eng_run_id self) (eng_prompt self) (eng_model self)) = None"
    and "con analysis_rule = None"
  shows "\<exists>rest. trace (snd (snd (analyze_and_generate con env self w))) =
     trace w @ [BlankLine,
                ConsolePrint (header_panel (eng_run_id self) (eng_prompt self) (eng_model self)),
                BlankLine, ConsolePrint analysis_rule, BlankLine,
                ClientConnect (session_options self)] @
     (if on_connect env = None then [ClientQuery (build_analysis_prompt self)] else []) @ rest"
proof -
  let ?hp = "header_panel (eng_run_id self) (eng_prompt self) (eng_model self)"
  define w2 where "w2 = blank_line (emit (ConsolePrint analysis_rule) (blank_line
      (emit (ConsolePrint ?hp) (blank_line w))))"
  have t2: "trace w2 = trace w @ [BlankLine, ConsolePrint ?hp, BlankLine, ConsolePrint analysis_rule,
      BlankLine]"
    by (simp add: w2_def blank_line_def emit_def)
  have h: "header con (eng_run_id self) (eng_prompt self) (eng_model self) w =
      (None, emit (ConsolePrint ?hp) (blank_line w))"
    using assms(1) by (simp add: header_def console_print_def)
  have s: "start_analysis con (emit (ConsolePrint ?hp) (blank_line w)) = (None, w2)"
    using assms(2) by (simp add: start_analysis_def console_print_def and_then_def w2_def)
  obtain res self' w' where a: "analyze_and_generate con env self w = (res, self', w')"
    by (metis prod_cases3)
  obtain fl u3 w3 where c: "client_session con env self (session_options self) w2 = (fl, u3, w3)"
    by (metis prod_cases3)
  from client_session_trace [of con env self "session_options self" w2] c obtain rest where
    t3: "trace w3 = trace w2 @ [ClientConnect (session_options self)] @
     (if on_connect env = None then [ClientQuery (build_analysis_prompt self)] else []) @ rest"
    by auto
  have "\<exists>es4. trace w' = trace w3 @ es4"
  proof (cases "\<exists>n. fl = Raised (Exception n)")
    case False
    with a h s c have "w' = w3"
      by (auto simp: analyze_and_generate_def split: flow.splits py_exception.splits)
    then show ?thesis by simp
  next
    case True
    then obtain n where fl: "fl = Raised (Exception n)" by blast
    have "follows con True None w3 (and_then (error con (Str (Exception n)) w3)
          (console_print con install_hint))"
      by (intro follows_and_then error_follows console_print_follows)
    then obtain es4 where "trace (snd (and_then (error con (Str (Exception n)) w3)
          (console_print con install_hint))) = trace w3 @ es4"
      by (auto simp: follows_def)
    moreover from a h s c fl have "w' = snd (and_then (error con (Str (Exception n)) w3)
          (console_print con install_hint))"
      by (auto simp: analyze_and_generate_def split: prod.splits option.splits)
    ultimately show ?thesis by blast
  qed
  with t2 t3 a show ?thesis by auto
qed



lemma report_trace: "\<exists>es. trace (snd (report con rw)) = trace (snd rw) @ es"
  by (auto simp: report_def console_print_def emit_def split: prod.splits sum.splits option.splits)

lemma path_lengths:
  "length (har_dir_path root rid) = length root + 2"
  "length (scripts_dir_path root rid) = length root + 2"
  "length (recording_path root rid) = length root + 3"
  "length (metadata_path root rid) = length root + 3"
  "har_dir_path root rid \<noteq> []"
  "scripts_dir_path root rid \<noteq> har_dir_path root rid"
  "joinpath (har_dir_path root rid) ''recording.har'' = recording_path root rid"
  "joinpath (har_dir_path root rid) ''metadata.json'' = metadata_path root rid"
  by (simp_all add: har_dir_path_def scripts_dir_path_def recording_path_def metadata_path_def
      joinpath_def)



lemma world2_files:
  "files world2 = [[''srv''] \<mapsto> Dir, [''srv'', ''reverse-api''] \<mapsto> Dir,
     [''srv'', ''reverse-api'', ''har''] \<mapsto> Dir,
     [''srv'', ''reverse-api'', ''har'', ''a1b2c3d4e5f6''] \<mapsto> Dir,
     recording0 \<mapsto> File (Raw ''HAR''),
     metadata0 \<mapsto> File (Json (metadata recorder_closed ''2026-11-04T12:00:00.000001''))]"
  unfolding world2_def sample_run_def
  by (simp add: run_defs sample_defs world1_files metadata_def)

lemma world_unstarted_files:
  "files world_unstarted = [[''srv''] \<mapsto> Dir, [''srv'', ''reverse-api''] \<mapsto> Dir,
     [''srv'', ''reverse-api'', ''har''] \<mapsto> Dir,
     [''srv'', ''reverse-api'', ''har'', ''a1b2c3d4e5f6''] \<mapsto> Dir,
     metadata0 \<mapsto> File (Json (metadata recorder0 ''2026-11-04T12:00:00''))]"
  unfolding world_unstarted_def
  by (simp add: run_defs sample_defs world1_files metadata_def)

lemma engineer0_init:
  "APIReverseEngineer_init root0 rid0 recording0 (JString prompt0) None None True world2 =
     (Inr engineer0, world3)"
  by (simp add: world3_def APIReverseEngineer_init_def get_scripts_dir_def mkdir_def joinpath_def
      engineer0_def root0_def rid0_def world2_files recording0_def metadata0_def Let_def)

lemma init_eng_scripts_dir:
  "APIReverseEngineer_init root rid hp p mdl instr v w0 = (Inr self, w) \<Longrightarrow>
   eng_scripts_dir self = scripts_dir_path root rid \<and> eng_run_id self = rid \<and> eng_prompt self = p"
  by (auto simp: APIReverseEngineer_init_def get_scripts_dir_def scripts_dir_path_def Let_def
      split: prod.splits option.splits)

lemma engineer_no_archive:
  assumes "\<not> exists (recording_path root run_id) (files w)"
    and "creatable (har_dir_path root run_id) (files w)"
    and "rendered con (missing_archive_report root run_id)"
  shows "engineer con root env run_id mdl instructions w =
           (Inr (), w\<lparr>files := snd (mkdir (har_dir_path root run_id) (files w)),
                      trace := trace w @ missing_archive_report root run_id\<rparr>)"
proof -
  obtain s1 where m: "mkdir (har_dir_path root run_id) (files w) = (None, s1)"
    using assms(2) mkdir_creatable [of "har_dir_path root run_id" "files w"]
    by (cases "mkdir (har_dir_path root run_id) (files w)") auto
  have "s1 (recording_path root run_id) = files w (recording_path root run_id)"
    by (rule mkdir_frame(2) [OF m]) (simp add: path_lengths)
  with assms(1) have "\<not> exists (recording_path root run_id) s1"
    by (simp add: exists_def)
  with m assms(3) show ?thesis
    by (simp add: engineer_def get_har_dir_def har_dir_path_def [symmetric] path_lengths Let_def
        emit_def missing_archive_report_def console_print_def and_then_def)
qed

lemma load_prompt_metadata:
  assumes "json_load mp s = Inr md" and "json_get md ''prompt'' = Some p"
  shows "load_prompt mp s = Inr p"
  using assms
  by (auto simp: load_prompt_def exists_def json_load_def dict_get_def json_get_def
      split: option.splits node.splits content.splits json.splits)

text \<open>The sample console prints what the sample runs show.\<close>

lemma replicate_numeral: "replicate (numeral k) x = x # replicate (pred_numeral k) x"
  by (subst numeral_eq_Suc [of k]) (rule replicate.simps)

lemmas ui_defs = header_def header_panel_def start_analysis_def analysis_rule_def tool_start_def
  tool_line_def tool_result_def thinking_def success_def error_def console_print_def
  blank_line_def and_then_def emit_def install_hint_def summarize_input_def truncate_path_def
  shorten_def dict_get_def json_get_def get_or_default_def TOOL_ICONS_def TOOL_COLORS_def
  py_len_def py_take_def py_suffix_def py_ljust_def py_strip_def replace_newline_def isspace_def
  whitespace_def is_cont_def bullet_def cross_mark_def arrow_def sparkles_def magnifier_def
  apostrophe_def ClaudeUI_init_def replicate_numeral

lemmas console0_defs = console0_def refused_def newline_def check_mark_def rid0_def prompt0_def

lemma console0_report: "rendered console0 (missing_archive_report root0 rid0)"
  by (simp add: missing_archive_report_def not_found_line_def expected_path_line_def
      recording_path_def joinpath_def path_str_def root0_def rid0_def console0_defs)

lemma console0_header: "console0 (header_panel rid0 (JString prompt0) None) = None"
  by (simp add: console0_def header_panel_def refused_def magnifier_def rid0_def prompt0_def)

lemma console0_rule: "console0 analysis_rule = None"
  by (simp add: console0_def analysis_rule_def refused_def)


lemma drop_bit_and_not_mask:
  fixes r :: "128 word"
  assumes "drop_bit 80 (push_bit k m :: 128 word) = 0"
  shows "drop_bit 80 r AND drop_bit 80 (NOT (push_bit k m)) = drop_bit 80 r"
proof (rule bit_word_eqI)
  fix n assume "n < LENGTH(128)"
  from assms have "\<not> bit (drop_bit 80 (push_bit k m :: 128 word)) n" by simp
  then have "\<not> bit (push_bit k m :: 128 word) (80 + n)" by (simp add: bit_drop_bit_eq ac_simps)
  then show "bit (drop_bit 80 r AND drop_bit 80 (NOT (push_bit k m))) n = bit (drop_bit 80 r) n"
    by (auto simp: bit_and_iff bit_drop_bit_eq bit_not_iff ac_simps dest: bit_imp_le_length)
qed

lemma uuid4_int_high: "drop_bit 80 (uuid4_int r) = drop_bit 80 r"
proof -
  have m1: "drop_bit 80 (push_bit 48 (0xc000 :: 128 word)) = 0"
    and m2: "drop_bit 80 (push_bit 48 (0x8000 :: 128 word)) = 0"
    and m3: "drop_bit 80 (push_bit 64 (0xf000 :: 128 word)) = 0"
    and m4: "drop_bit 80 (push_bit 76 (4 :: 128 word)) = 0"
    by (simp_all add: drop_bit_push_bit)
  show ?thesis
    unfolding uuid4_int_def Let_def drop_bit_and drop_bit_or m2 m4
    by (simp only: drop_bit_and_not_mask [OF m1] drop_bit_and_not_mask [OF m3] or.right_neutral)
qed

lemma length_hex_pad: "length (hex_pad k n) = k"
  by (induction k arbitrary: n) simp_all

lemma take_hex_pad: "take k (hex_pad (k + j) n) = hex_pad k (n div 16 ^ j)"
proof (induction j arbitrary: n)
  case 0
  then show ?case by (simp add: length_hex_pad)
next
  case (Suc j)
  have "take k (hex_pad (k + Suc j) n) = take k (hex_pad (k + j) (n div 16))"
    by (simp add: length_hex_pad)
  also have "\<dots> = hex_pad k (n div 16 div 16 ^ j)" by (rule Suc.IH)
  also have "n div 16 div 16 ^ j = n div 16 ^ Suc j" by (simp add: div_mult2_eq)
  finally show ?case .
qed

lemma hexdigit_lower_hex: "lower_hex (hexdigit n)"
proof -
  have "n mod 16 < length ''0123456789abcdef''" by simp
  then show ?thesis unfolding hexdigit_def lower_hex_def by (rule nth_mem)
qed

lemma hex_pad_lower_hex: "list_all lower_hex (hex_pad k n)"
  by (induction k arbitrary: n) (simp_all add: hexdigit_lower_hex)

lemma hexdigit_inj: "hexdigit m = hexdigit n \<longleftrightarrow> m mod 16 = n mod 16"
proof -
  have d: "distinct ''0123456789abcdef''" by simp
  have "m mod 16 < length ''0123456789abcdef''" "n mod 16 < length ''0123456789abcdef''"
    by simp_all
  with d show ?thesis unfolding hexdigit_def by (simp only: nth_eq_iff_index_eq)
qed

lemma hex_pad_inj:
  "m < 16 ^ k \<Longrightarrow> n < 16 ^ k \<Longrightarrow> hex_pad k m = hex_pad k n \<Longrightarrow> m = n"
proof (induction k arbitrary: m n)
  case 0
  then show ?case by simp
next
  case (Suc k)
  from Suc.prems(3) have e: "hex_pad k (m div 16) = hex_pad k (n div 16)"
    and h: "hexdigit m = hexdigit n" by simp_all
  from Suc.prems(1,2) have "m div 16 < 16 ^ k" "n div 16 < 16 ^ k"
    by (simp_all add: less_mult_imp_div_less mult.commute)
  with e have "m div 16 = n div 16" by (rule Suc.IH [rotated 2])
  moreover from h have "m mod 16 = n mod 16" by (simp add: hexdigit_inj)
  ultimately show ?case by (metis div_mult_mod_eq)
qed

lemma unat_drop_bit_80: "unat (drop_bit 80 w) = unat w div 2 ^ 80"
proof -
  have "unat (drop_bit 80 w) = drop_bit 80 (unat w)" by (rule unat_drop_bit_eq)
  also have "\<dots> = unat w div 2 ^ 80" by (rule drop_bit_eq_div)
  finally show ?thesis .
qed

lemma generate_run_id_eq: "generate_run_id r = hex_pad 12 (unat (drop_bit 80 r))"
proof -
  have "generate_run_id r = take 12 (hex_pad (12 + 20) (unat (uuid4_int r)))"
    by (simp add: generate_run_id_def uuid_hex_def)
  also have "\<dots> = hex_pad 12 (unat (uuid4_int r) div 16 ^ 20)"
    by (rule take_hex_pad)
  also have "unat (uuid4_int r) div 16 ^ 20 = unat (drop_bit 80 (uuid4_int r))"
    by (simp add: unat_drop_bit_80)
  finally show ?thesis by (simp add: uuid4_int_high)
qed

lemma generate_run_id_inj:
  "generate_run_id r = generate_run_id r' \<longleftrightarrow> drop_bit 80 r = drop_bit 80 r'"
proof
  assume "generate_run_id r = generate_run_id r'"
  then have e: "hex_pad 12 (unat (drop_bit 80 r)) = hex_pad 12 (unat (drop_bit 80 r'))"
    by (simp add: generate_run_id_eq)
  have b: "unat (drop_bit 80 x) < 16 ^ 12" for x :: "128 word"
  proof -
    have "unat x < 2 ^ 128" using unsigned_less [of x] by simp
    then have "unat x div 2 ^ 80 < 2 ^ 48" by (simp add: less_mult_imp_div_less)
    then show ?thesis by (simp add: unat_drop_bit_80)
  qed
  from hex_pad_inj [OF b b e] show "drop_bit 80 r = drop_bit 80 r'"
    by (simp only: word_unat_eq_iff)
next
  assume "drop_bit 80 r = drop_bit 80 r'"
  then show "generate_run_id r = generate_run_id r'" by (simp add: generate_run_id_eq)
qed

lemma generate_run_id_distinct:
  "distinct (map generate_run_id rs) = distinct (map (drop_bit 80) rs)"
  by (induction rs) (auto simp: generate_run_id_inj image_iff)

lemma hex_pad_numeral:
  "hex_pad (numeral k) n = hex_pad (pred_numeral k) (n div 16) @ [hexdigit n]"
  by (subst numeral_eq_Suc [of k]) (rule hex_pad.simps)

lemma generate_run_id_random0: "generate_run_id random0 = rid0"
  by (simp add: random0_def rid0_def generate_run_id_eq hexdigit_def hex_pad_numeral unat_drop_bit_80)

lemma mkdir_parents_idem:
  "mkdir_parents cur cs s = (None, s') \<Longrightarrow> mkdir_parents cur cs s' = (None, s')"
proof (induction cs arbitrary: cur s)
  case Nil
  then show ?case by simp
next
  case (Cons c cs)
  let ?p = "cur @ [c]"
  have "\<exists>s0. s0 ?p = Some Dir \<and> mkdir_parents ?p cs s0 = (None, s')"
  proof (cases "s ?p")
    case None
    with Cons.prems have "mkdir_parents ?p cs (s(?p \<mapsto> Dir)) = (None, s')"
      by (simp add: Let_def)
    then show ?thesis by (intro exI [of _ "s(?p \<mapsto> Dir)"]) simp
  next
    case (Some n)
    with Cons.prems have "n = Dir" "mkdir_parents ?p cs s = (None, s')"
      by (cases n; simp add: Let_def)+
    with Some show ?thesis by (intro exI [of _ s]) simp
  qed
  then obtain s0 where s0: "s0 ?p = Some Dir" and m: "mkdir_parents ?p cs s0 = (None, s')"
    by blast
  from mkdir_parents_frame [OF m, of ?p] s0 have "s' ?p = Some Dir" by auto
  moreover from m have "mkdir_parents ?p cs s' = (None, s')" by (rule Cons.IH)
  ultimately show ?case by (simp add: Let_def)
qed

lemma mkdir_idem: "mkdir p s = (None, s') \<Longrightarrow> mkdir p s' = (None, s')"
  unfolding mkdir_def by (rule mkdir_parents_idem)

lemma get_har_dir_idem:
  assumes "creatable (har_dir_path root run_id) (files w)"
  shows "get_har_dir root run_id w =
           (Inr (har_dir_path root run_id), snd (get_har_dir root run_id w)) \<and>
         get_har_dir root run_id (snd (get_har_dir root run_id w)) =
           (Inr (har_dir_path root run_id), snd (get_har_dir root run_id w)) \<and>
         files (snd (get_har_dir root run_id w)) (har_dir_path root run_id) = Some Dir"
proof -
  obtain s1 where m: "mkdir (har_dir_path root run_id) (files w) = (None, s1)"
    using assms mkdir_creatable [of "har_dir_path root run_id" "files w"]
    by (cases "mkdir (har_dir_path root run_id) (files w)") auto
  have d: "s1 (har_dir_path root run_id) = Some Dir"
    by (rule mkdir_dir [OF m]) (simp add: path_lengths)
  from m mkdir_idem [OF m] d show ?thesis
    by (simp add: get_har_dir_def har_dir_path_def [symmetric] Let_def)
qed

lemma get_scripts_dir_idem:
  assumes "creatable (scripts_dir_path root run_id) (files w)"
  shows "get_scripts_dir root run_id w =
           (Inr (scripts_dir_path root run_id), snd (get_scripts_dir root run_id w)) \<and>
         get_scripts_dir root run_id (snd (get_scripts_dir root run_id w)) =
           (Inr (scripts_dir_path root run_id), snd (get_scripts_dir root run_id w)) \<and>
         files (snd (get_scripts_dir root run_id w)) (scripts_dir_path root run_id) = Some Dir"
proof -
  obtain s1 where m: "mkdir (scripts_dir_path root run_id) (files w) = (None, s1)"
    using assms mkdir_creatable [of "scripts_dir_path root run_id" "files w"]
    by (cases "mkdir (scripts_dir_path root run_id) (files w)") auto
  have d: "s1 (scripts_dir_path root run_id) = Some Dir"
    by (rule mkdir_dir [OF m]) (simp add: scripts_dir_path_def joinpath_neq)
  from m mkdir_idem [OF m] d show ?thesis
    by (simp add: get_scripts_dir_def scripts_dir_path_def [symmetric] Let_def)
qed

text \<open>
  \<open>isoformat\<close> keeps the order of valid datetimes, and reflects it: every field fills
  its width.
\<close>

lemma length_dec_pad: "length (dec_pad k n) = k"
  by (induction k arbitrary: n) simp_all

lemma of_char_digit: "(of_char (digit n) :: nat) = 48 + n mod 10"
proof -
  have "n mod 10 = 0 \<or> n mod 10 = 1 \<or> n mod 10 = 2 \<or> n mod 10 = 3 \<or> n mod 10 = 4 \<or>
        n mod 10 = 5 \<or> n mod 10 = 6 \<or> n mod 10 = 7 \<or> n mod 10 = 8 \<or> n mod 10 = 9"
    by presburger
  then show ?thesis
    unfolding digit_def by (elim disjE) simp_all
qed

lemma digit_eq_iff: "digit m = digit n \<longleftrightarrow> m mod 10 = n mod 10"
proof
  assume "digit m = digit n"
  then have "(of_char (digit m) :: nat) = of_char (digit n)" by simp
  then show "m mod 10 = n mod 10" by (simp add: of_char_digit)
next
  assume "m mod 10 = n mod 10"
  then show "digit m = digit n" by (simp add: digit_def)
qed

lemma str_le_refl: "str_le xs xs"
  by (induction xs) simp_all

lemma str_le_append:
  "length xs = length ys \<Longrightarrow>
   str_le (xs @ r) (ys @ r') = (if xs = ys then str_le r r' else str_le xs ys)"
proof (induction xs ys rule: list_induct2)
  case Nil
  then show ?case by simp
next
  case (Cons x xs y ys)
  then show ?case by auto
qed

lemma dec_pad_eq_iff:
  "m < 10 ^ k \<Longrightarrow> n < 10 ^ k \<Longrightarrow> dec_pad k m = dec_pad k n \<longleftrightarrow> m = n"
proof (induction k arbitrary: m n)
  case 0
  then show ?case by simp
next
  case (Suc k)
  from Suc.prems have b: "m div 10 < 10 ^ k" "n div 10 < 10 ^ k"
    by (simp_all add: less_mult_imp_div_less mult.commute)
  have "dec_pad (Suc k) m = dec_pad (Suc k) n \<longleftrightarrow>
        dec_pad k (m div 10) = dec_pad k (n div 10) \<and> digit m = digit n"
    by simp
  also have "\<dots> \<longleftrightarrow> m div 10 = n div 10 \<and> m mod 10 = n mod 10"
    by (simp add: Suc.IH [OF b] digit_eq_iff)
  also have "\<dots> \<longleftrightarrow> m = n"
    by (metis div_mult_mod_eq)
  finally show ?case .
qed

lemma dec_pad_le_iff:
  "m < 10 ^ k \<Longrightarrow> n < 10 ^ k \<Longrightarrow> str_le (dec_pad k m) (dec_pad k n) \<longleftrightarrow> m \<le> n"
proof (induction k arbitrary: m n)
  case 0
  then show ?case by simp
next
  case (Suc k)
  from Suc.prems have b: "m div 10 < 10 ^ k" "n div 10 < 10 ^ k"
    by (simp_all add: less_mult_imp_div_less mult.commute)
  have "str_le (dec_pad (Suc k) m) (dec_pad (Suc k) n) \<longleftrightarrow>
        (if m div 10 = n div 10 then m mod 10 \<le> n mod 10 else m div 10 \<le> n div 10)"
    by (simp add: str_le_append length_dec_pad dec_pad_eq_iff [OF b] Suc.IH [OF b]
        of_char_digit digit_eq_iff) auto
  also have "\<dots> \<longleftrightarrow> m \<le> n"
  proof (cases "m div 10 = n div 10")
    case True
    then show ?thesis by (metis div_mult_mod_eq add_le_cancel_left)
  next
    case False
    then show ?thesis
      by (metis div_le_mono linorder_le_cases nle_le)
  qed
  finally show ?case .
qed

lemma dec_pad_numeral:
  "dec_pad (numeral k) n = dec_pad (pred_numeral k) (n div 10) @ [digit n]"
  by (subst numeral_eq_Suc [of k]) (rule dec_pad.simps)

lemma pad_dec_pad:
  "pad2 n = dec_pad 2 n" "pad4 n = dec_pad 4 n" "pad6 n = dec_pad 6 n"
  by (simp_all add: pad2_def pad4_def pad6_def dec_pad_numeral div_mult2_eq [symmetric])


lemma str_le_block:
  assumes "m < 10 ^ k" "n < 10 ^ k"
  shows "str_le (dec_pad k m @ r) (dec_pad k n @ r') = (m < n \<or> (m = n \<and> str_le r r'))"
  using assms
  by (auto simp: str_le_append length_dec_pad dec_pad_eq_iff dec_pad_le_iff)

lemma str_le_fraction:
  assumes "a < 10 ^ 6" "b < 10 ^ 6"
  shows "str_le (if a = 0 then [] else ''.'' @ dec_pad 6 a) (if b = 0 then [] else ''.'' @ dec_pad 6 b)
         \<longleftrightarrow> a \<le> b"
  using assms by (auto simp: dec_pad_le_iff)

lemma isoformat_le_iff:
  assumes "valid_datetime a" and "valid_datetime b"
  shows "str_le (isoformat a) (isoformat b) \<longleftrightarrow> dt_le a b"
proof -
  have ba: "year a < 10 ^ 4" "month a < 10 ^ 2" "day a < 10 ^ 2" "hour a < 10 ^ 2"
    "minute a < 10 ^ 2" "second a < 10 ^ 2" "microsecond a < 10 ^ 6"
    using assms(1) by (simp_all add: valid_datetime_def)
  have bb: "year b < 10 ^ 4" "month b < 10 ^ 2" "day b < 10 ^ 2" "hour b < 10 ^ 2"
    "minute b < 10 ^ 2" "second b < 10 ^ 2" "microsecond b < 10 ^ 6"
    using assms(2) by (simp_all add: valid_datetime_def)
  let ?fa = "if microsecond a = 0 then [] else ''.'' @ dec_pad 6 (microsecond a)"
  let ?fb = "if microsecond b = 0 then [] else ''.'' @ dec_pad 6 (microsecond b)"
  have f: "str_le ?fa ?fb \<longleftrightarrow> microsecond a \<le> microsecond b"
    by (rule str_le_fraction [OF ba(7) bb(7)])
  have ia: "isoformat a = dec_pad 4 (year a) @ CHR ''-'' # dec_pad 2 (month a) @ CHR ''-'' #
      dec_pad 2 (day a) @ CHR ''T'' # dec_pad 2 (hour a) @ CHR '':'' # dec_pad 2 (minute a) @
      CHR '':'' # dec_pad 2 (second a) @ ?fa"
    by (simp add: isoformat_def pad_dec_pad)
  have ib: "isoformat b = dec_pad 4 (year b) @ CHR ''-'' # dec_pad 2 (month b) @ CHR ''-'' #
      dec_pad 2 (day b) @ CHR ''T'' # dec_pad 2 (hour b) @ CHR '':'' # dec_pad 2 (minute b) @
      CHR '':'' # dec_pad 2 (second b) @ ?fb"
    by (simp add: isoformat_def pad_dec_pad)
  have "str_le (isoformat a) (isoformat b) \<longleftrightarrow>
     (year a < year b \<or> (year a = year b \<and>
     (month a < month b \<or> (month a = month b \<and>
     (day a < day b \<or> (day a = day b \<and>
     (hour a < hour b \<or> (hour a = hour b \<and>
     (minute a < minute b \<or> (minute a = minute b \<and>
     (second a < second b \<or> (second a = second b \<and> str_le ?fa ?fb))))))))))))"
    unfolding ia ib
    by (simp only: str_le_block [OF ba(1) bb(1)] str_le_block [OF ba(2) bb(2)]
        str_le_block [OF ba(3) bb(3)] str_le_block [OF ba(4) bb(4)]
        str_le_block [OF ba(5) bb(5)] str_le_block [OF ba(6) bb(6)] str_le.simps
        less_irrefl simp_thms)
  also have "\<dots> \<longleftrightarrow>
     (year a < year b \<or> (year a = year b \<and>
     (month a < month b \<or> (month a = month b \<and>
     (day a < day b \<or> (day a = day b \<and>
     (hour a < hour b \<or> (hour a = hour b \<and>
     (minute a < minute b \<or> (minute a = minute b \<and>
     (second a < second b \<or> (second a = second b \<and>
      microsecond a \<le> microsecond b))))))))))))"
    by (simp only: f)
  also have "\<dots> \<longleftrightarrow> dt_le a b"
    by (auto simp: dt_le_def dt_fields_def)
  finally show ?thesis .
qed

text \<open>
  \<open>start\<close> returns whenever some poll of the wait loop finds no page or fails; and a
  metadata file without a \<open>prompt\<close> field gives the fallback text.
\<close>

lemma start_returns:
  assumes "\<exists>p \<in> set (polls env). p \<noteq> PagesOpen None"
  shows "start clk env self url w \<noteq> None"
proof -
  have wl: "wait_loop (polls env) w' = None \<longleftrightarrow> False" for w'
    using wait_loop_returns [OF assms, of w'] by simp
  show ?thesis
    by (auto simp: start_def get_timestamp_def Let_def wl split: option.splits prod.splits)
       (metis prod_cases3)+
qed

lemma load_prompt_fallback:
  "load_prompt mp (s(mp \<mapsto> File (Json (JObject [])))) = Inr default_prompt"
  by (simp add: load_prompt_def exists_def json_load_def dict_get_def json_get_def)


section \<open>The claims\<close>

subsection \<open>C1: close() twice\<close>

text \<open>
  Claim C1. After a \<open>start()\<close> that has returned, two more calls of \<open>close()\<close> in
  succession both return the archive path \<open>har/<run_id>/recording.har\<close>, whatever
  the browser engine would answer (no teardown call is made: the trace grows by the
  clock reads and the closing messages only). After each call the metadata file is one
  JSON document, the record of this run with the run identifier unchanged and the end
  time read by that call.
\<close>

theorem close_twice:
  assumes init: "ManualBrowser_init root run_id prompt w = (Inr self0, w1)"
    and started: "start clk env self0 url w1 = Some (Inr p, self1, w2)"
  shows "\<exists>w3 w4.
     close clk enva self1 w2 = (Inr (recording_path root run_id), self1, w3) \<and>
     close clk envb self1 w3 = (Inr (recording_path root run_id), self1, w4) \<and>
     p = recording_path root run_id \<and>
     trace w4 = trace w2 @ Now (ticks w2) # close_prints self1 @
                Now (Suc (ticks w2)) # close_prints self1 \<and>
     json_load (metadata_path root run_id) (files w3) =
       Inr (metadata self1 (isoformat (clk (ticks w2)))) \<and>
     json_load (metadata_path root run_id) (files w4) =
       Inr (metadata self1 (isoformat (clk (Suc (ticks w2))))) \<and>
     json_get (metadata self1 (isoformat (clk (ticks w2)))) ''run_id'' = Some (JString run_id) \<and>
     json_get (metadata self1 (isoformat (clk (Suc (ticks w2))))) ''run_id'' =
       Some (JString run_id)"
proof -
  note f = start_Inr_final [OF init started]
  note ip = init_paths [OF init]
  have hs: "mb_context self1 = None" "mb_browser self1 = None" "mb_playwright self1 = None"
    by (simp_all add: f(2) closed_handles_fields)
  have ps: "mb_har_path self1 = recording_path root run_id"
       "mb_metadata_path self1 = metadata_path root run_id" "mb_run_id self1 = run_id"
    by (simp_all add: f(2) closed_handles_fields opened_fields ip)
  define w3 where "w3 =
      \<lparr>files = (files w2)(metadata_path root run_id \<mapsto>
                 File (Json (metadata self1 (isoformat (clk (ticks w2)))))),
       ticks = Suc (ticks w2),
       trace = trace w2 @ Now (ticks w2) # close_prints self1\<rparr>"
  define w4 where "w4 =
      \<lparr>files = (files w3)(metadata_path root run_id \<mapsto>
                 File (Json (metadata self1 (isoformat (clk (ticks w3)))))),
       ticks = Suc (ticks w3),
       trace = trace w3 @ Now (ticks w3) # close_prints self1\<rparr>"
  have c1: "close clk enva self1 w2 = (Inr (recording_path root run_id), self1, w3)"
    using close_teardown_done [OF hs, of w2 clk enva] f(3) by (simp add: ps w3_def)
  have "writable (metadata_path root run_id) (files w3)"
    using f(3) by (simp add: w3_def writable_upd_self)
  then have c2: "close clk envb self1 w3 = (Inr (recording_path root run_id), self1, w4)"
    using close_teardown_done [OF hs, of w3 clk envb] by (simp add: ps w4_def)
  have "json_get (metadata self1 t) ''run_id'' = Some (JString run_id)" for t
    by (simp add: json_get_def metadata_def ps)
  with c1 c2 f(1) show ?thesis
    by (intro exI [of _ w3] exI [of _ w4]) (simp add: w3_def w4_def json_load_def)
qed

theorem close_twice_witness:
  "ManualBrowser_init root0 rid0 prompt0 world0 = (Inr recorder0, world1) \<and>
   start clk0 session_ok recorder0 (Some url0) world1 = Some (Inr recording0, recorder_closed, world2) \<and>
   fst (close clk0 session_ok recorder_closed world2) = Inr recording0 \<and>
   fst (close clk0 session_ok recorder_closed
          (snd (snd (close clk0 session_ok recorder_closed world2)))) = Inr recording0 \<and>
   json_load metadata0
     (files (snd (snd (close clk0 session_ok recorder_closed
          (snd (snd (close clk0 session_ok recorder_closed world2))))))) =
     Inr (JObject
       [(''run_id'', JString ''a1b2c3d4e5f6''),
        (''prompt'', JString ''capture login flow''),
        (''start_time'', JString ''2026-11-04T12:00:00''),
        (''end_time'', JString ''2026-11-04T12:00:00.000003''),
        (''har_file'', JString ''/srv/reverse-api/har/a1b2c3d4e5f6/recording.har'')])"
proof -
  from close_twice [OF init0 sample_started, of session_ok session_ok]
  obtain w3 w4 where
    c1: "close clk0 session_ok recorder_closed world2 = (Inr (recording_path root0 rid0), recorder_closed, w3)" and
    c2: "close clk0 session_ok recorder_closed w3 = (Inr (recording_path root0 rid0), recorder_closed, w4)" and
    m: "json_load (metadata_path root0 rid0) (files w4) =
       Inr (metadata recorder_closed (isoformat (clk0 (Suc (ticks world2)))))"
    by blast
  have t: "ticks world2 = 2"
    unfolding world2_def sample_run_def by (simp add: run_defs sample_defs world1_files)
  have p: "recording_path root0 rid0 = recording0" "metadata_path root0 rid0 = metadata0"
    by (simp_all add: recording_path_def metadata_path_def joinpath_def sample_defs)
  from c1 c2 m t p init0 sample_started show ?thesis
    by (simp add: metadata_def sample_defs isoformat_def pad2_def pad4_def pad6_def digit_def
        path_str_def)
qed

subsection \<open>C2: the outcome of analyze_and_generate\<close>

text \<open>
  Claim C2 (as amended). For an orchestrator built by its constructor, an agent runtime
  that raises nothing outside class \<open>Exception\<close>, and a presenter that raises nothing
  (it can summarise every tool input of the stream, and the console has rendered all that
  the call printed), \<open>analyze_and_generate\<close> returns exactly one value, a path or
  \<open>None\<close>. It is the fixed path \<open>scripts/<run_id>/api_client.py\<close> exactly when the
  client was entered, the query was sent, the first result message of the stream signals
  success and the client was left without an exception; in every other case (a result
  message that signals failure, an exception on entering, querying, streaming or leaving,
  a stream without a result message) it is \<open>None\<close>.
\<close>

theorem analyze_outcome:
  assumes built: "APIReverseEngineer_init root rid hp p mdl instr v w0 = (Inr self, w)"
    and "swallowed (on_connect env)" and "swallowed (on_query env)"
    and "swallowed (on_stream_end env)" and "swallowed (on_disconnect env)"
    and inputs: "summarizable (responses env)"
    and shown: "rendered con (added w (snd (snd (analyze_and_generate con env self w))))"
  shows "fst (analyze_and_generate con env self w) =
           Inr (if on_connect env = None \<and> on_query env = None \<and> on_disconnect env = None \<and>
                   map_option fst (terminal (responses env)) = Some False
                then Some (path_str (api_client_path root rid))
                else None)"
proof -
  obtain res self' w' where a: "analyze_and_generate con env self w = (res, self', w')"
    by (metis prod_cases3)
  from analyze_follows [OF a] obtain es where e: "trace w' = trace w @ es"
    "summarizable (responses env) \<and> rendered con es \<longrightarrow>
     res = (case session_flow env self of
              Returned r \<Rightarrow> Inr r
            | Raised (Exception n) \<Rightarrow> Inr None
            | Raised (BaseExceptionOnly n) \<Rightarrow> Inl (BaseExceptionOnly n)
            | Completed \<Rightarrow> Inr None)"
    by (auto elim: followsE)
  from e(1) have "added w w' = es" by (simp add: added_def)
  with shown a inputs e(2) have r: "res =
       (case session_flow env self of
          Returned r \<Rightarrow> Inr r
        | Raised (Exception n) \<Rightarrow> Inr None
        | Raised (BaseExceptionOnly n) \<Rightarrow> Inl (BaseExceptionOnly n)
        | Completed \<Rightarrow> Inr None)"
    by simp
  have d: "path_str (joinpath (eng_scripts_dir self) ''api_client.py'') =
           path_str (api_client_path root rid)"
    using init_eng_scripts_dir [OF built] by (simp add: api_client_path_def)
  show ?thesis
    unfolding a fst_conv r
    using assms(2-5)
    by (cases "on_connect env" rule: swallowed.cases;
        cases "on_query env" rule: swallowed.cases;
        cases "on_stream_end env" rule: swallowed.cases;
        cases "on_disconnect env" rule: swallowed.cases)
       (auto simp: session_flow_def stream_flow_def d split: option.splits bool.splits)
qed

theorem analyze_outcome_witness:
  "APIReverseEngineer_init root0 rid0 recording0 (JString prompt0) None None True world2 =
     (Inr engineer0, world3) \<and>
   summarizable (responses agent_ok) \<and>
   rendered console0 (added world3 (snd (snd (analyze_and_generate console0 agent_ok engineer0 world3)))) \<and>
   fst (analyze_and_generate console0 agent_ok engineer0 world3) = Inr (Some script0) \<and>
   summarizable (responses agent_unreachable) \<and>
   rendered console0
     (added world3 (snd (snd (analyze_and_generate console0 agent_unreachable engineer0 world3)))) \<and>
   fst (analyze_and_generate console0 agent_unreachable engineer0 world3) = Inr None"
proof -
  have ok: "swallowed (on_connect agent_ok)" "swallowed (on_query agent_ok)"
    "swallowed (on_stream_end agent_ok)" "swallowed (on_disconnect agent_ok)"
    by (simp_all add: agent_ok_def)
  have un: "swallowed (on_connect agent_unreachable)" "swallowed (on_query agent_unreachable)"
    "swallowed (on_stream_end agent_unreachable)" "swallowed (on_disconnect agent_unreachable)"
    by (simp_all add: agent_unreachable_def agent_ok_def)
  have s: "summarizable (responses agent_ok)" "summarizable (responses agent_unreachable)"
    by (simp_all add: summarizable_def agent_unreachable_def agent_ok_def ui_defs)
  have r1: "rendered console0
      (added world3 (snd (snd (analyze_and_generate console0 agent_ok engineer0 world3))))"
    by (simp add: added_def analyze_and_generate_def client_session_def session_options_def
        agent_ok_def engineer0_def ui_defs console0_defs Let_def)
  have r2: "rendered console0
      (added world3 (snd (snd (analyze_and_generate console0 agent_unreachable engineer0 world3))))"
    by (simp add: added_def analyze_and_generate_def client_session_def session_options_def
        agent_unreachable_def agent_ok_def engineer0_def ui_defs console0_defs Let_def)
  have p: "path_str (api_client_path root0 rid0) = script0"
    by (simp add: api_client_path_def scripts_dir_path_def joinpath_def path_str_def root0_def
        rid0_def script0_def)
  from analyze_outcome [OF engineer0_init ok s(1) r1] analyze_outcome [OF engineer0_init un s(2) r2]
    engineer0_init s r1 r2
  show ?thesis
    by (simp add: p agent_ok_def agent_unreachable_def)
qed

text \<open>
  Claim C2 as stated fails, in four ways. The \<open>return script_path\<close> stands inside the
  \<open>async with\<close>: when the result message signals success and leaving the client then
  raises, the exception replaces the returned path, \<open>except Exception\<close> catches it and
  \<open>None\<close> is returned, after the error was shown. An exception outside class
  \<open>Exception\<close> (here a cancellation while the query is sent) is not caught: the call
  raises instead of returning \<open>None\<close>. What the agent writes is printed as console
  markup: text that holds \<open>[/users]\<close> makes the presenter raise \<open>MarkupError\<close> before
  the result message is read, the handler prints the text of that error, which quotes the
  tag, and the second \<open>MarkupError\<close> leaves the call: neither a path nor \<open>None\<close>. And a
  shell tool started with a null command makes the presenter raise \<open>AttributeError\<close>:
  the handler shows it and \<open>None\<close> is returned, although the stream ends in success.
\<close>

theorem analyze_success_lost_counterexample:
  "map_option fst (terminal (responses agent_disconnect_fails)) = Some False \<and>
   fst (analyze_and_generate console0 agent_disconnect_fails engineer0 world3) = Inr None \<and>
   ConsolePrint (Markup [Lit (''[bold red]'' @ cross_mark @ '' Error:[/bold red] ''),
                         Str (Exception ''RuntimeError'')])
     \<in> set (trace (snd (snd (analyze_and_generate console0 agent_disconnect_fails engineer0 world3)))) \<and>
   fst (analyze_and_generate console0 agent_cancelled engineer0 world3) =
     Inl (BaseExceptionOnly ''CancelledError'') \<and>
   map_option fst (terminal (responses agent_writes_tag)) = Some False \<and>
   fst (analyze_and_generate console0 agent_writes_tag engineer0 world3) =
     Inl (Exception ''MarkupError'') \<and>
   map_option fst (terminal (responses agent_null_command)) = Some False \<and>
   fst (analyze_and_generate console0 agent_null_command engineer0 world3) = Inr None"
  by (simp add: analyze_and_generate_def client_session_def session_options_def
      agent_disconnect_fails_def agent_cancelled_def agent_writes_tag_def agent_null_command_def
      agent_ok_def engineer0_def ui_defs console0_defs joinpath_def path_str_def Let_def)

subsection \<open>C3: the metadata of a finished session\<close>

text \<open>
  Claim C3 (as amended). When \<open>start()\<close> has run to its end (its last action is
  \<open>close()\<close>), the file \<open>har/<run_id>/metadata.json\<close> is a JSON document, an object of
  exactly the five fields \<open>run_id\<close>, \<open>prompt\<close>, \<open>start_time\<close>, \<open>end_time\<close>,
  \<open>har_file\<close>, in this order. The two times are the \<open>isoformat()\<close> of two successive
  readings of the naive local wall clock, the first on entry to \<open>start()\<close> and the
  second on entry to \<open>close()\<close>; both have the ISO-8601 shape, and \<open>har_file\<close> is the
  archive path as a string. The strings in the file are ordered as the two readings are:
  \<open>end_time >= start_time\<close> holds exactly when the second reading of the clock is not
  earlier than the first.
\<close>

theorem start_close_metadata:
  assumes init: "ManualBrowser_init root run_id prompt w = (Inr self0, w1)"
    and started: "start clk env self0 url w1 = Some (Inr p, self1, w2)"
    and valid: "\<And>i. valid_datetime (clk i)"
  shows "json_load (metadata_path root run_id) (files w2) =
           Inr (JObject
             [(''run_id'', JString run_id),
              (''prompt'', JString prompt),
              (''start_time'', JString (isoformat (clk (ticks w1)))),
              (''end_time'', JString (isoformat (clk (Suc (ticks w1))))),
              (''har_file'', JString (path_str (recording_path root run_id)))]) \<and>
         iso8601 (isoformat (clk (ticks w1))) \<and>
         iso8601 (isoformat (clk (Suc (ticks w1)))) \<and>
         str_le (isoformat (clk (ticks w1))) (isoformat (clk (Suc (ticks w1)))) =
           dt_le (clk (ticks w1)) (clk (Suc (ticks w1)))"
proof -
  note f = start_Inr_final [OF init started]
  note ip = init_paths [OF init]
  have "metadata self1 t =
          JObject
             [(''run_id'', JString run_id),
              (''prompt'', JString prompt),
              (''start_time'', JString (isoformat (clk (ticks w1)))),
              (''end_time'', JString t),
              (''har_file'', JString (path_str (recording_path root run_id)))]" for t
    by (simp add: metadata_def f(2) closed_handles_fields opened_fields ip)
  with f(4) have "json_load (metadata_path root run_id) (files w2) =
           Inr (JObject
             [(''run_id'', JString run_id),
              (''prompt'', JString prompt),
              (''start_time'', JString (isoformat (clk (ticks w1)))),
              (''end_time'', JString (isoformat (clk (Suc (ticks w1))))),
              (''har_file'', JString (path_str (recording_path root run_id)))])"
    by (simp add: json_load_def)
  moreover have "str_le (isoformat (clk (ticks w1))) (isoformat (clk (Suc (ticks w1)))) =
      dt_le (clk (ticks w1)) (clk (Suc (ticks w1)))"
    using valid valid by (rule isoformat_le_iff)
  ultimately show ?thesis by (simp add: iso8601_isoformat)
qed

theorem start_close_metadata_witness:
  "ManualBrowser_init root0 rid0 prompt0 world0 = (Inr recorder0, world1) \<and>
   start clk0 session_ok recorder0 (Some url0) world1 = Some (Inr recording0, recorder_closed, world2) \<and>
   json_load metadata0 (files world2) =
     Inr (JObject
       [(''run_id'', JString ''a1b2c3d4e5f6''),
        (''prompt'', JString ''capture login flow''),
        (''start_time'', JString ''2026-11-04T12:00:00''),
        (''end_time'', JString ''2026-11-04T12:00:00.000001''),
        (''har_file'', JString ''/srv/reverse-api/har/a1b2c3d4e5f6/recording.har'')]) \<and>
   iso8601 ''2026-11-04T12:00:00'' \<and> iso8601 ''2026-11-04T12:00:00.000001'' \<and>
   dt_le (clk0 0) (clk0 1) \<and>
   str_le ''2026-11-04T12:00:00'' ''2026-11-04T12:00:00.000001''"
proof -
  have p: "metadata_path root0 rid0 = metadata0"
    "path_str (recording_path root0 rid0) = ''/srv/reverse-api/har/a1b2c3d4e5f6/recording.har''"
    by (simp_all add: recording_path_def metadata_path_def joinpath_def sample_defs path_str_def)
  have i: "isoformat (clk0 0) = ''2026-11-04T12:00:00''"
    "isoformat (clk0 (Suc 0)) = ''2026-11-04T12:00:00.000001''"
    by (simp_all add: sample_defs isoformat_def pad2_def pad4_def pad6_def digit_def)
  have d: "dt_le (clk0 0) (clk0 (Suc 0))"
    by (simp add: clk0_def dt_le_def dt_fields_def)
  from start_close_metadata [OF init0 sample_started clk0_valid] init0 sample_started d
  show ?thesis
    by (simp add: p [unfolded rid0_def] i world1_files rid0_def prompt0_def)
qed

text \<open>
  Claim C3 as stated, with \<open>end_time >= start_time\<close> for every run, fails:
  \<open>get_timestamp\<close> reads \<open>datetime.now()\<close>, the local wall clock without a time zone,
  and that clock is set back when daylight saving time ends. A session opened at 01:59:59
  and closed six seconds later, after the change, has a metadata file whose end time
  comes before its start time.
\<close>

theorem start_close_backward_clock_counterexample:
  "valid_datetime (clk_back 0) \<and> valid_datetime (clk_back 1) \<and>
   start clk_back session_ok recorder0 (Some url0) world1 =
     Some (Inr recording0, recorder_back, world_back) \<and>
   json_load metadata0 (files world_back) =
     Inr (JObject
       [(''run_id'', JString ''a1b2c3d4e5f6''),
        (''prompt'', JString ''capture login flow''),
        (''start_time'', JString ''2026-11-01T01:59:59''),
        (''end_time'', JString ''2026-11-01T01:00:05''),
        (''har_file'', JString ''/srv/reverse-api/har/a1b2c3d4e5f6/recording.har'')]) \<and>
   \<not> str_le ''2026-11-01T01:59:59'' ''2026-11-01T01:00:05'' \<and>
   \<not> dt_le (clk_back 0) (clk_back 1)"
  unfolding world_back_def
  by (simp add: run_defs sample_defs clk_back_def recorder_back_def world1_files json_load_def
      metadata_def path_str_def valid_datetime_def dt_le_def dt_fields_def)

subsection \<open>C4: run identifiers and directories\<close>

text \<open>
  Claim C4. Every token of \<open>generate_run_id\<close> is twelve lower-case hexadecimal
  characters, whatever the 128 random bits are. The token is the leading 48 of these
  bits and nothing else (the variant and version bits that \<open>uuid4\<close> overwrites lie
  below them): two draws give the same token exactly when their leading 48 bits agree,
  so N draws give pairwise distinct tokens exactly when their leading 48-bit fields are
  pairwise distinct, which is what the entropy source makes probable. For every run
  identifier each resolver is a function of the root and the identifier: it returns
  \<open>har/<run_id>\<close>, respectively \<open>scripts/<run_id>\<close>, and leaves the directory in
  place; called again it returns the same path, raises nothing and changes nothing.
  (The directories must be creatable: no regular file in the way.)
\<close>

theorem run_id_and_directories:
  assumes "creatable (har_dir_path root run_id) (files w)"
    and "creatable (scripts_dir_path root run_id) (files w)"
  shows "length (generate_run_id r) = 12 \<and>
         list_all lower_hex (generate_run_id r) \<and>
         (generate_run_id r = generate_run_id r') = (drop_bit 80 r = drop_bit 80 r') \<and>
         distinct (map generate_run_id rs) = distinct (map (drop_bit 80) rs) \<and>
         get_har_dir root run_id w =
           (Inr (har_dir_path root run_id), snd (get_har_dir root run_id w)) \<and>
         get_har_dir root run_id (snd (get_har_dir root run_id w)) =
           (Inr (har_dir_path root run_id), snd (get_har_dir root run_id w)) \<and>
         files (snd (get_har_dir root run_id w)) (har_dir_path root run_id) = Some Dir \<and>
         get_scripts_dir root run_id w =
           (Inr (scripts_dir_path root run_id), snd (get_scripts_dir root run_id w)) \<and>
         get_scripts_dir root run_id (snd (get_scripts_dir root run_id w)) =
           (Inr (scripts_dir_path root run_id), snd (get_scripts_dir root run_id w)) \<and>
         files (snd (get_scripts_dir root run_id w)) (scripts_dir_path root run_id) = Some Dir"
proof -
  have "length (generate_run_id r) = 12"
    by (simp add: generate_run_id_eq length_hex_pad)
  moreover have "list_all lower_hex (generate_run_id r)"
    by (simp add: generate_run_id_eq hex_pad_lower_hex)
  moreover note generate_run_id_inj [of r r'] generate_run_id_distinct [of rs]
    get_har_dir_idem [OF assms(1)] get_scripts_dir_idem [OF assms(2)]
  ultimately show ?thesis by blast
qed

theorem run_id_and_directories_witness:
  "creatable (har_dir_path root0 rid0) (files world0) \<and>
   creatable (scripts_dir_path root0 rid0) (files world0) \<and>
   generate_run_id random0 = ''a1b2c3d4e5f6'' \<and>
   generate_run_id random1 = generate_run_id random0 \<and>
   length (generate_run_id random1) = 12 \<and>
   list_all lower_hex (generate_run_id random1) \<and>
   fst (get_har_dir root0 rid0 world0) = Inr [''srv'', ''reverse-api'', ''har'', ''a1b2c3d4e5f6''] \<and>
   fst (get_har_dir root0 rid0 (snd (get_har_dir root0 rid0 world0))) =
     Inr [''srv'', ''reverse-api'', ''har'', ''a1b2c3d4e5f6''] \<and>
   fst (get_scripts_dir root0 rid0 world0) =
     Inr [''srv'', ''reverse-api'', ''scripts'', ''a1b2c3d4e5f6'']"
proof -
  have h1: "creatable (har_dir_path root0 rid0) (files world0)"
    by (simp add: creatable_def har_dir_path_def joinpath_def root0_def rid0_def world0_def)
  have h2: "creatable (scripts_dir_path root0 rid0) (files world0)"
    by (simp add: creatable_def scripts_dir_path_def joinpath_def root0_def rid0_def world0_def)
  have d: "drop_bit 80 random1 = drop_bit 80 random0"
    by (simp add: random0_def random1_def)
  have p: "har_dir_path root0 rid0 = [''srv'', ''reverse-api'', ''har'', ''a1b2c3d4e5f6'']"
    "scripts_dir_path root0 rid0 = [''srv'', ''reverse-api'', ''scripts'', ''a1b2c3d4e5f6'']"
    by (simp_all add: har_dir_path_def scripts_dir_path_def joinpath_def root0_def rid0_def)
  note t = run_id_and_directories [OF h1 h2, of random1 random0 "[]"]
  from t d have e: "generate_run_id random1 = generate_run_id random0" by blast
  from t have l: "length (generate_run_id random1) = 12"
    and x: "list_all lower_hex (generate_run_id random1)" by blast+
  from t have a: "fst (get_har_dir root0 rid0 world0) = Inr (har_dir_path root0 rid0)"
    by (metis fst_conv)
  from t have b: "fst (get_har_dir root0 rid0 (snd (get_har_dir root0 rid0 world0))) =
      Inr (har_dir_path root0 rid0)"
    by (metis fst_conv)
  from t have c: "fst (get_scripts_dir root0 rid0 world0) = Inr (scripts_dir_path root0 rid0)"
    by (metis fst_conv)
  have g: "generate_run_id random0 = ''a1b2c3d4e5f6''"
    using generate_run_id_random0 by (simp add: rid0_def)
  from h1 h2 g e l x a b c show ?thesis
    by (simp only: p simp_thms)
qed

subsection \<open>C5: analysis without an archive\<close>

text \<open>
  Claim C5 (as amended). For a run identifier that is one plain path component (the
  model reads it as such) and has no archive \<open>har/<run_id>/recording.har\<close> on the disk,
  when the console renders the two lines of the report, the error and the expected
  archive path, the analysis command returns without raising and without running the
  analysis: its whole effect is the idempotent creation of the capture directory and the
  two lines on the console. The scripts directory is neither created nor touched. (The
  capture directory must be creatable: no regular file in the way.)
\<close>

theorem engineer_missing_archive:
  assumes "plain_component run_id"
    and "\<not> exists (recording_path root run_id) (files w)"
    and "creatable (har_dir_path root run_id) (files w)"
    and "rendered con (missing_archive_report root run_id)"
  shows "engineer con root env run_id mdl instructions w =
           (Inr (), w\<lparr>files := snd (mkdir (har_dir_path root run_id) (files w)),
                      trace := trace w @ missing_archive_report root run_id\<rparr>) \<and>
         snd (mkdir (har_dir_path root run_id) (files w)) (scripts_dir_path root run_id) =
           files w (scripts_dir_path root run_id)"
proof -
  obtain r s1 where m: "mkdir (har_dir_path root run_id) (files w) = (r, s1)"
    by (cases "mkdir (har_dir_path root run_id) (files w)") auto
  have "s1 (scripts_dir_path root run_id) = files w (scripts_dir_path root run_id)"
    by (rule mkdir_frame(3) [OF m]) (simp_all add: path_lengths)
  with m engineer_no_archive [OF assms(2-4)] show ?thesis by simp
qed

theorem engineer_missing_archive_witness:
  "plain_component rid0 \<and>
   \<not> exists (recording_path root0 rid0) (files world1) \<and>
   creatable (har_dir_path root0 rid0) (files world1) \<and>
   rendered console0 (missing_archive_report root0 rid0) \<and>
   fst (engineer console0 root0 agent_ok rid0 None None world1) = Inr () \<and>
   trace (snd (engineer console0 root0 agent_ok rid0 None None world1)) =
     [ConsolePrint (Markup [Lit ''[red]Error:[/red] HAR file not found for run ID: '',
                            Lit ''a1b2c3d4e5f6'']),
      ConsolePrint (Markup [Lit ''[dim]Expected path: '',
                            Lit ''/srv/reverse-api/har/a1b2c3d4e5f6/recording.har'',
                            Lit ''[/dim]''])] \<and>
   files (snd (engineer console0 root0 agent_ok rid0 None None world1)) = files world1 \<and>
   files (snd (engineer console0 root0 agent_ok rid0 None None world1))
     [''srv'', ''reverse-api'', ''scripts'', ''a1b2c3d4e5f6''] = None"
proof -
  have h0: "plain_component rid0"
    by (simp add: plain_component_def rid0_def)
  have h1: "\<not> exists (recording_path root0 rid0) (files world1)"
    by (simp add: exists_def recording_path_def joinpath_def root0_def rid0_def world1_files)
  have m: "mkdir (har_dir_path root0 rid0) (files world1) = (None, files world1)"
    by (simp add: har_dir_path_def mkdir_def joinpath_def root0_def rid0_def world1_files)
  then have h2: "creatable (har_dir_path root0 rid0) (files world1)"
    using mkdir_creatable [of "har_dir_path root0 rid0" "files world1"] by simp
  have h3: "rendered console0 (missing_archive_report root0 rid0)"
    by (rule console0_report)
  from engineer_missing_archive [OF h0 h1 h2 h3, of agent_ok None None] h0 h1 h2 h3 m
  show ?thesis
    by (simp add: missing_archive_report_def not_found_line_def expected_path_line_def
        recording_path_def joinpath_def path_str_def root0_def rid0_def world1_files)
qed

text \<open>
  Claim C5 as stated, for every run identifier, fails: the command interpolates the
  identifier into console markup and escapes nothing. For the identifier \<open>[/x]\<close>, which
  has no archive, the console reads a closing tag that matches no open tag: the first
  line of the report raises \<open>MarkupError\<close>, which leaves the command, and the expected
  path is never shown.
\<close>

theorem engineer_markup_run_id_counterexample:
  "\<not> exists (recording_path root0 ''[/x]'') (files world1) \<and>
   creatable (har_dir_path root0 ''[/x]'') (files world1) \<and>
   console0 (not_found_line ''[/x]'') = Some (Exception ''MarkupError'') \<and>
   fst (engineer console0 root0 agent_ok ''[/x]'' None None world1) =
     Inl (Exception ''MarkupError'') \<and>
   trace (snd (engineer console0 root0 agent_ok ''[/x]'' None None world1)) =
     [ConsolePrint (not_found_line ''[/x]'')]"
  by (simp add: engineer_def get_har_dir_def mkdir_def exists_def creatable_def recording_path_def
      har_dir_path_def joinpath_def root0_def world1_files not_found_line_def
      expected_path_line_def console_print_def and_then_def emit_def console0_defs Let_def)

subsection \<open>C6: teardown errors\<close>

text \<open>
  Claim C6. In \<open>close()\<close> each of the three teardown calls sits in its own
  \<open>try ... except Exception: pass\<close>. Whichever of them fail, with an error of class
  \<open>Exception\<close> (\<open>swallowed\<close>) as the errors of the browser engine are, \<open>close()\<close>
  returns the archive path, every call whose handle is live has been attempted, in order,
  and the metadata file has been written. The recorder's paths are those the constructor
  builds, its capture directory exists and no directory sits at the metadata path.
\<close>

theorem close_swallows_Exception:
  assumes "mb_har_path self = joinpath (mb_har_dir self) ''recording.har''"
    and "mb_metadata_path self = joinpath (mb_har_dir self) ''metadata.json''"
    and "files w (mb_har_dir self) = Some Dir"
    and "files w (mb_metadata_path self) \<noteq> Some Dir"
    and "swallowed (on_context_close env)"
    and "swallowed (on_browser_close env)"
    and "swallowed (on_playwright_stop env)"
  shows "\<exists>w'. close clk env self w = (Inr (mb_har_path self), closed_handles self, w') \<and>
           trace w' = trace w @ [Now (ticks w)] @
             (if mb_context self \<noteq> None then [ContextClose] else []) @
             (if mb_browser self \<noteq> None then [BrowserClose] else []) @
             (if mb_playwright self \<noteq> None then [PlaywrightStop] else []) @
             close_prints self \<and>
           json_load (mb_metadata_path self) (files w') =
             Inr (metadata self (isoformat (clk (ticks w))))"
proof -
  have w1: "writable (mb_metadata_path self) (files w)"
    using assms(2-4) by (simp add: writable_def parent_is_dir_def butlast_joinpath joinpath_neq)
  have hd: "mb_har_dir self \<noteq> mb_har_path self"
    using joinpath_neq(2) [of "mb_har_dir self" "''recording.har''"] assms(1) by simp
  have w2: "writable (mb_metadata_path self) ((files w)(mb_har_path self \<mapsto> File c))" for c
    using assms(2-4) hd
    by (auto simp: writable_def parent_is_dir_def butlast_joinpath joinpath_neq)
  have ne: "mb_metadata_path self \<noteq> mb_har_path self"
    using assms(1,2) by (simp add: joinpath_inject)
  show ?thesis
    using assms(5-7) w1 w2 ne
    by (cases "on_context_close env" rule: swallowed.cases;
        cases "on_browser_close env" rule: swallowed.cases;
        cases "on_playwright_stop env" rule: swallowed.cases)
       (auto simp: close_def get_timestamp_def save_metadata_def emit_def emits_def
        context_close_def browser_close_def playwright_stop_def closed_handles_def Let_def
        dump_to_writable json_load_def close_prints_def metadata_def
        split: if_splits prod.splits option.splits)
qed

theorem close_swallows_Exception_witness:
  "swallowed (on_context_close session_teardown_fails) \<and>
   swallowed (on_browser_close session_teardown_fails) \<and>
   swallowed (on_playwright_stop session_teardown_fails) \<and>
   fst (close clk0 session_teardown_fails recorder_live world1) = Inr recording0 \<and>
   trace (snd (snd (close clk0 session_teardown_fails recorder_live world1))) =
     [Now 0, ContextClose, BrowserClose, PlaywrightStop] @ close_prints recorder0 \<and>
   json_load metadata0 (files (snd (snd (close clk0 session_teardown_fails recorder_live world1)))) =
     Inr (JObject
       [(''run_id'', JString ''a1b2c3d4e5f6''),
        (''prompt'', JString ''capture login flow''),
        (''start_time'', JString ''2026-11-04T12:00:00''),
        (''end_time'', JString ''2026-11-04T12:00:00''),
        (''har_file'', JString ''/srv/reverse-api/har/a1b2c3d4e5f6/recording.har'')])"
proof -
  have h1: "mb_har_path recorder_live = joinpath (mb_har_dir recorder_live) ''recording.har''"
    and h2: "mb_metadata_path recorder_live = joinpath (mb_har_dir recorder_live) ''metadata.json''"
    and h3: "files world1 (mb_har_dir recorder_live) = Some Dir"
    and h4: "files world1 (mb_metadata_path recorder_live) \<noteq> Some Dir"
    by (simp_all add: recorder_live_def opened_def sample_defs joinpath_def world1_files)
  have h5: "swallowed (on_context_close session_teardown_fails)"
    and h6: "swallowed (on_browser_close session_teardown_fails)"
    and h7: "swallowed (on_playwright_stop session_teardown_fails)"
    by (simp_all add: session_teardown_fails_def)
  from close_swallows_Exception [OF h1 h2 h3 h4 h5 h6 h7, of clk0] h5 h6 h7
  show ?thesis
    by (auto simp: recorder_live_def opened_def closed_handles_def sample_defs world1_files
        close_prints_def metadata_def isoformat_def pad2_def pad4_def digit_def path_str_def)
qed

subsection \<open>C7: when the start time is read\<close>

text \<open>
  Claim C7 (as amended). The start timestamp is the reading of the clock taken as the
  first action of \<open>start()\<close>: before the signal handlers are registered and the banner
  is printed, and before the automation engine is started, hence before the browser and
  the capture context are opened and before any navigation. This holds of every call of
  \<open>start()\<close> that returns, normally or not.
\<close>

theorem start_time_read_on_entry:
  assumes "start clk env self url w = Some (r, self', w')"
  shows "mb_start_time self' = Some (isoformat (clk (ticks w))) \<and>
         (\<exists>rest. trace w' = trace w @ [Now (ticks w), SignalHandler ''SIGINT'',
                     SignalHandler ''SIGTERM''] @ banner self @ PlaywrightStart # rest)"
  using assms
  apply (simp add: start_def get_timestamp_def emit_def emits_def Let_def
      split: option.splits prod.splits if_splits)
                 apply (auto dest!: wait_loop_frame close_frame simp: emit_def banner_def)
  done

theorem start_time_read_on_entry_witness:
  "start clk0 session_ok recorder0 (Some url0) world1 = Some (Inr recording0, recorder_closed, world2) \<and>
   mb_start_time recorder_closed = Some (isoformat (clk0 0)) \<and>
   take 3 (trace world2) = [Now 0, SignalHandler ''SIGINT'', SignalHandler ''SIGTERM'']"
  using start_time_read_on_entry [OF sample_started] sample_started
  by (auto simp: world1_files)

text \<open>
  Claim C7 as stated fails: in the sample session, which navigates to a start URL, the
  clock read that gives the start time (\<open>Now 0\<close>) is the first event of the trace; the
  launch of the browser, the opening of the capture context and the navigation all come
  after it, none before.
\<close>

theorem start_time_after_navigation_counterexample:
  "sample_run = Some (Inr recording0, recorder_closed, world2) \<and>
   mb_start_time recorder_closed = Some (isoformat (clk0 0)) \<and>
   trace world2 =
     [Now 0, SignalHandler ''SIGINT'', SignalHandler ''SIGTERM''] @ banner recorder0 @
     [PlaywrightStart, ChromiumLaunch, NewContext recording0, NewPage, Goto url0,
      WaitForTimeout 500, Now 1, ContextClose, BrowserClose, PlaywrightStop] @
     close_prints recorder0 \<and>
   \<not> precedes ChromiumLaunch (Now 0) (trace world2) \<and>
   \<not> precedes (NewContext recording0) (Now 0) (trace world2) \<and>
   \<not> precedes (Goto url0) (Now 0) (trace world2) \<and>
   precedes (Now 0) ChromiumLaunch (trace world2)"
  using sample_started world2_trace
  by (simp add: sample_run_def recorder_closed_def isoformat_def pad2_def pad4_def digit_def
      clk0_def banner_def close_prints_def)

subsection \<open>C8: the prompt of a re-run analysis\<close>

text \<open>
  Claim C8 (as amended). For a run identifier that is one plain path component (the
  model reads it as such), when the archive of the run exists and its metadata file is a
  JSON object with a \<open>prompt\<close> field, the analysis command runs the analysis with that
  prompt and not with the fallback text: the orchestrator is called with it, the header,
  which is the first thing it hands to the console, shows it, and once the console has
  rendered the header and the rule, the task description sent to the agent runtime
  interpolates it. (Where the name \<open>prompt\<close> occurs more than once in the file, the
  value is that of its last occurrence.)
\<close>

theorem engineer_uses_metadata_prompt:
  assumes plain: "plain_component run_id"
    and archive: "exists (recording_path root run_id) (files w)"
    and har_ok: "creatable (har_dir_path root run_id) (files w)"
    and scripts_ok: "creatable (scripts_dir_path root run_id) (files w)"
    and md: "json_load (metadata_path root run_id) (files w) = Inr md"
    and p: "json_get md ''prompt'' = Some p"
  shows "engineer con root env run_id mdl instructions w =
           report con
             (run_reverse_engineering con root env run_id (recording_path root run_id) p mdl
                instructions True
                (w\<lparr>files := snd (mkdir (har_dir_path root run_id) (files w))\<rparr>)) \<and>
         (\<exists>rest. trace (snd (engineer con root env run_id mdl instructions w)) =
            trace w @ [BlankLine, ConsolePrint (header_panel run_id p mdl)] @ rest) \<and>
         (con (header_panel run_id p mdl) = None \<and> con analysis_rule = None \<longrightarrow>
          (\<exists>rest. trace (snd (engineer con root env run_id mdl instructions w)) =
             trace w @
             [BlankLine, ConsolePrint (header_panel run_id p mdl),
              BlankLine, ConsolePrint analysis_rule, BlankLine,
              ClientConnect (session_options (built_engineer root run_id p mdl instructions))] @
             (if on_connect env = None
              then [ClientQuery (build_analysis_prompt (built_engineer root run_id p mdl instructions))]
              else []) @ rest))"
proof -
  let ?hd = "har_dir_path root run_id" and ?sd = "scripts_dir_path root run_id"
  let ?eng = "built_engineer root run_id p mdl instructions"
  obtain s1 where m: "mkdir ?hd (files w) = (None, s1)"
    using har_ok mkdir_creatable [of ?hd "files w"] by (cases "mkdir ?hd (files w)") auto
  have "creatable ?sd s1"
    using scripts_ok creatable_after_mkdir [OF m] by simp
  then obtain s2 where m2: "mkdir ?sd s1 = (None, s2)"
    using mkdir_creatable [of ?sd s1] by (cases "mkdir ?sd s1") auto
  have r: "s1 (recording_path root run_id) = files w (recording_path root run_id)"
    by (rule mkdir_frame(2) [OF m]) (simp add: path_lengths)
  have "s1 (metadata_path root run_id) = files w (metadata_path root run_id)"
    by (rule mkdir_frame(2) [OF m]) (simp add: path_lengths)
  then have "json_load (metadata_path root run_id) s1 = Inr md"
    using md by (simp add: json_load_def)
  then have lp: "load_prompt (metadata_path root run_id) s1 = Inr p"
    using p by (rule load_prompt_metadata)
  from archive r have ex: "exists (recording_path root run_id) s1"
    by (simp add: exists_def)
  have eq: "engineer con root env run_id mdl instructions w =
           report con
             (run_reverse_engineering con root env run_id (recording_path root run_id) p mdl
                instructions True (w\<lparr>files := s1\<rparr>))"
    using m ex lp
    by (simp add: engineer_def get_har_dir_def har_dir_path_def [symmetric] path_lengths Let_def)
  obtain res self' w3 where a: "analyze_and_generate con env ?eng (w\<lparr>files := s2\<rparr>) = (res, self', w3)"
    by (metis prod_cases3)
  have rr: "run_reverse_engineering con root env run_id (recording_path root run_id) p mdl
              instructions True (w\<lparr>files := s1\<rparr>) = (res, w3)"
    using m2 a
    by (simp add: run_reverse_engineering_def APIReverseEngineer_init_def get_scripts_dir_def
        scripts_dir_path_def [symmetric] built_engineer_def Let_def)
  from report_trace [of con "(res, w3)"] obtain es where
    es: "trace (snd (report con (res, w3))) = trace w3 @ es" by auto
  from analyze_trace_header [of con env ?eng "w\<lparr>files := s2\<rparr>"] a obtain rest where
    "trace w3 = trace w @ [BlankLine, ConsolePrint (header_panel run_id p mdl)] @ rest"
    by (auto simp: built_engineer_def)
  with es eq rr have 1: "\<exists>rest. trace (snd (engineer con root env run_id mdl instructions w)) =
            trace w @ [BlankLine, ConsolePrint (header_panel run_id p mdl)] @ rest"
    by simp
  have 2: "\<exists>rest. trace (snd (engineer con root env run_id mdl instructions w)) =
             trace w @
             [BlankLine, ConsolePrint (header_panel run_id p mdl),
              BlankLine, ConsolePrint analysis_rule, BlankLine,
              ClientConnect (session_options ?eng)] @
             (if on_connect env = None then [ClientQuery (build_analysis_prompt ?eng)] else []) @ rest"
    if c: "con (header_panel run_id p mdl) = None" "con analysis_rule = None"
  proof -
    have "con (header_panel (eng_run_id ?eng) (eng_prompt ?eng) (eng_model ?eng)) = None"
      using c(1) by (simp add: built_engineer_def)
    from analyze_trace [OF this c(2), of env "w\<lparr>files := s2\<rparr>"] a obtain rest where
      "trace w3 = trace w @
         [BlankLine, ConsolePrint (header_panel run_id p mdl),
          BlankLine, ConsolePrint analysis_rule, BlankLine,
          ClientConnect (session_options ?eng)] @
         (if on_connect env = None then [ClientQuery (build_analysis_prompt ?eng)] else []) @ rest"
      by (auto simp: built_engineer_def)
    with es eq rr show ?thesis by simp
  qed
  from eq m 1 2 show ?thesis by simp
qed

theorem engineer_uses_metadata_prompt_witness:
  "plain_component rid0 \<and>
   exists (recording_path root0 rid0) (files world2) \<and>
   creatable (har_dir_path root0 rid0) (files world2) \<and>
   creatable (scripts_dir_path root0 rid0) (files world2) \<and>
   load_prompt (metadata_path root0 rid0) (files world2) = Inr (JString ''capture login flow'') \<and>
   console0 (header_panel rid0 (JString ''capture login flow'') None) = None \<and>
   console0 analysis_rule = None \<and>
   fst (engineer console0 root0 agent_ok rid0 None None world2) = Inr () \<and>
   take 7 (added world2 (snd (engineer console0 root0 agent_ok rid0 None None world2))) =
     [BlankLine, ConsolePrint (header_panel ''a1b2c3d4e5f6'' (JString ''capture login flow'') None),
      BlankLine, ConsolePrint analysis_rule, BlankLine,
      ClientConnect (session_options engineer0), ClientQuery (build_analysis_prompt engineer0)] \<and>
   Val (JString ''capture login flow'') \<in> set (build_analysis_prompt engineer0) \<and>
   JString ''capture login flow'' \<noteq> default_prompt"
proof -
  have paths: "recording_path root0 rid0 = recording0" "metadata_path root0 rid0 = metadata0"
    "har_dir_path root0 rid0 = [''srv'', ''reverse-api'', ''har'', ''a1b2c3d4e5f6'']"
    "scripts_dir_path root0 rid0 = [''srv'', ''reverse-api'', ''scripts'', ''a1b2c3d4e5f6'']"
    by (simp_all add: recording_path_def metadata_path_def har_dir_path_def scripts_dir_path_def
        joinpath_def root0_def rid0_def recording0_def metadata0_def)
  have h0: "plain_component rid0"
    by (simp add: plain_component_def rid0_def)
  have h1: "exists (recording_path root0 rid0) (files world2)"
    by (simp add: paths exists_def world2_files recording0_def metadata0_def)
  have h2: "creatable (har_dir_path root0 rid0) (files world2)"
    by (simp add: paths creatable_def world2_files recording0_def metadata0_def)
  have h3: "creatable (scripts_dir_path root0 rid0) (files world2)"
    by (simp add: paths creatable_def world2_files recording0_def metadata0_def)
  have h4: "json_load (metadata_path root0 rid0) (files world2) =
      Inr (JObject
       [(''run_id'', JString ''a1b2c3d4e5f6''),
        (''prompt'', JString ''capture login flow''),
        (''start_time'', JString ''2026-11-04T12:00:00''),
        (''end_time'', JString ''2026-11-04T12:00:00.000001''),
        (''har_file'', JString ''/srv/reverse-api/har/a1b2c3d4e5f6/recording.har'')])"
    using world2_metadata by (simp add: paths)
  have h5: "json_get (JObject
       [(''run_id'', JString ''a1b2c3d4e5f6''),
        (''prompt'', JString ''capture login flow''),
        (''start_time'', JString ''2026-11-04T12:00:00''),
        (''end_time'', JString ''2026-11-04T12:00:00.000001''),
        (''har_file'', JString ''/srv/reverse-api/har/a1b2c3d4e5f6/recording.har'')])
       ''prompt'' = Some (JString ''capture login flow'')"
    by (simp add: json_get_def)
  have c1: "console0 (header_panel rid0 (JString ''capture login flow'') None) = None"
    using console0_header by (simp add: prompt0_def)
  note c2 = console0_rule
  have e: "built_engineer root0 rid0 (JString ''capture login flow'') None None = engineer0"
    by (simp add: built_engineer_def engineer0_def paths prompt0_def)
  note t = engineer_uses_metadata_prompt [OF h0 h1 h2 h3 h4 h5, of console0 agent_ok None None]
  have m1: "mkdir (har_dir_path root0 rid0) (files world2) = (None, files world2)"
    by (simp add: paths mkdir_def world2_files recording0_def metadata0_def)
  have a: "fst (analyze_and_generate console0 agent_ok engineer0 w) = Inr (Some script0)" for w
    by (simp add: analyze_and_generate_def client_session_def session_options_def
        agent_ok_def engineer0_def ui_defs console0_defs joinpath_def path_str_def script0_def
        Let_def)
  have i: "APIReverseEngineer_init root0 rid0 recording0 (JString ''capture login flow'')
             None None True world2 = (Inr engineer0, world3)"
    using engineer0_init by (simp add: prompt0_def)
  have "world2\<lparr>files := files world2\<rparr> = world2" by simp
  with t m1 have "engineer console0 root0 agent_ok rid0 None None world2 =
      report console0 (run_reverse_engineering console0 root0 agent_ok rid0 recording0
        (JString ''capture login flow'') None None True world2)"
    by (simp add: paths)
  moreover have "fst (run_reverse_engineering console0 root0 agent_ok rid0 recording0
        (JString ''capture login flow'') None None True world2) = Inr (Some script0)"
    using a [of world3] by (auto simp: run_reverse_engineering_def i split: prod.splits)
  ultimately have ok: "fst (engineer console0 root0 agent_ok rid0 None None world2) = Inr ()"
    by (auto simp: report_def console_print_def script0_def console0_defs
        split: prod.splits sum.splits option.splits)
  from t c1 c2 obtain rest where "trace (snd (engineer console0 root0 agent_ok rid0 None None world2)) =
     trace world2 @
     [BlankLine, ConsolePrint (header_panel rid0 (JString ''capture login flow'') None),
      BlankLine, ConsolePrint analysis_rule, BlankLine,
      ClientConnect (session_options engineer0), ClientQuery (build_analysis_prompt engineer0)] @ rest"
    by (auto simp: e agent_ok_def)
  then have tr: "take 7 (added world2 (snd (engineer console0 root0 agent_ok rid0 None None world2))) =
     [BlankLine, ConsolePrint (header_panel rid0 (JString ''capture login flow'') None),
      BlankLine, ConsolePrint analysis_rule, BlankLine,
      ClientConnect (session_options engineer0), ClientQuery (build_analysis_prompt engineer0)]"
    by (simp add: added_def)
  have lp: "load_prompt (metadata_path root0 rid0) (files world2) = Inr (JString ''capture login flow'')"
    using h4 h5 by (rule load_prompt_metadata)
  have v: "Val (JString ''capture login flow'') \<in> set (build_analysis_prompt engineer0)"
    by (simp add: build_analysis_prompt_def engineer0_def prompt0_def)
  from h0 h1 h2 h3 lp c1 c2 ok tr v show ?thesis
    by (simp add: default_prompt_def rid0_def)
qed

text \<open>
  Claim C8 as stated, for every run whose metadata file exists, fails: \<open>close()\<close> writes
  the metadata also when no archive was saved (here: \<open>close()\<close> without \<open>start()\<close>), and
  the analysis command then stops at its archive check. The prompt is in the metadata
  file, and no analysis is run with it: the command only reports the missing archive.
\<close>

theorem engineer_metadata_without_archive_counterexample:
  "exists (metadata_path root0 rid0) (files world_unstarted) \<and>
   load_prompt (metadata_path root0 rid0) (files world_unstarted) =
     Inr (JString ''capture login flow'') \<and>
   fst (engineer console0 root0 agent_ok rid0 None None world_unstarted) = Inr () \<and>
   trace (snd (engineer console0 root0 agent_ok rid0 None None world_unstarted)) =
     trace world_unstarted @ missing_archive_report root0 rid0"
proof -
  have paths: "recording_path root0 rid0 = recording0" "metadata_path root0 rid0 = metadata0"
    "har_dir_path root0 rid0 = [''srv'', ''reverse-api'', ''har'', ''a1b2c3d4e5f6'']"
    by (simp_all add: recording_path_def metadata_path_def har_dir_path_def
        joinpath_def root0_def rid0_def recording0_def metadata0_def)
  have e: "\<not> exists (recording_path root0 rid0) (files world_unstarted)"
    by (simp add: paths exists_def world_unstarted_files recording0_def metadata0_def)
  have c: "creatable (har_dir_path root0 rid0) (files world_unstarted)"
    by (simp add: paths creatable_def world_unstarted_files recording0_def metadata0_def)
  have x: "exists (metadata_path root0 rid0) (files world_unstarted)"
    by (simp add: paths exists_def world_unstarted_files)
  have l: "load_prompt (metadata_path root0 rid0) (files world_unstarted) =
     Inr (JString ''capture login flow'')"
    by (simp add: paths load_prompt_def exists_def json_load_def dict_get_def json_get_def
        world_unstarted_files metadata_def recorder0_def prompt0_def)
  from engineer_no_archive [OF e c console0_report, of agent_ok None None] x l show ?thesis by simp
qed

subsection \<open>C9: the capture directory of an unknown run\<close>



subsection \<open>C10: close() without start()\<close>

text \<open>
  Claim C10. \<open>close()\<close> on a recorder on which \<open>start()\<close> was never called does not
  raise: it returns the archive path, none of the three teardown calls is made (the trace
  grows by the clock read and the three closing messages only), and the metadata file is
  written with \<open>start_time\<close> null. The constructor has created the capture directory;
  the one thing that can still stop \<open>open(..., "w")\<close> is a directory sitting at the
  metadata path, a file-system failure that propagates.
\<close>

theorem close_without_start:
  assumes "ManualBrowser_init root run_id prompt w = (Inr self, w1)"
    and "files w1 (metadata_path root run_id) \<noteq> Some Dir"
  shows "close clk env self w1 =
     (Inr (recording_path root run_id), self,
      \<lparr>files = (files w1)(metadata_path root run_id \<mapsto>
          File (Json (JObject
            [(''run_id'', JString run_id),
             (''prompt'', JString prompt),
             (''start_time'', JNull),
             (''end_time'', JString (isoformat (clk (ticks w1)))),
             (''har_file'', JString (path_str (recording_path root run_id)))]))),
       ticks = Suc (ticks w1),
       trace = trace w1 @ Now (ticks w1) # close_prints self\<rparr>)"
proof -
  note i = init_Inr [OF assms(1)]
  have paths: "mb_har_path self = recording_path root run_id"
       "mb_metadata_path self = metadata_path root run_id"
    by (simp_all add: i(1) recording_path_def metadata_path_def)
  have "writable (mb_metadata_path self) (files w1)"
    using assms(2) i(2)
    by (simp add: paths writable_def parent_is_dir_def metadata_path_def butlast_joinpath
        joinpath_neq)
  then have "close clk env self w1 =
     (Inr (mb_har_path self), self,
      \<lparr>files = (files w1)(mb_metadata_path self \<mapsto>
                 File (Json (metadata self (isoformat (clk (ticks w1)))))),
       ticks = Suc (ticks w1),
       trace = trace w1 @ Now (ticks w1) # close_prints self\<rparr>)"
    by (intro close_teardown_done) (simp_all add: i(1))
  moreover have "metadata self (isoformat (clk (ticks w1))) = JObject
            [(''run_id'', JString run_id),
             (''prompt'', JString prompt),
             (''start_time'', JNull),
             (''end_time'', JString (isoformat (clk (ticks w1)))),
             (''har_file'', JString (path_str (recording_path root run_id)))]"
    by (simp add: metadata_def i(1) recording_path_def)
  ultimately show ?thesis by (simp add: paths)
qed

theorem close_without_start_witness:
  "ManualBrowser_init root0 rid0 prompt0 world0 = (Inr recorder0, world1) \<and>
   files world1 (metadata_path root0 rid0) \<noteq> Some Dir \<and>
   fst (close clk0 session_ok recorder0 world1) =
     Inr [''srv'', ''reverse-api'', ''har'', ''a1b2c3d4e5f6'', ''recording.har''] \<and>
   trace (snd (snd (close clk0 session_ok recorder0 world1))) = Now 0 # close_prints recorder0 \<and>
   json_load [''srv'', ''reverse-api'', ''har'', ''a1b2c3d4e5f6'', ''metadata.json'']
       (files (snd (snd (close clk0 session_ok recorder0 world1)))) =
     Inr (JObject
       [(''run_id'', JString ''a1b2c3d4e5f6''),
        (''prompt'', JString ''capture login flow''),
        (''start_time'', JNull),
        (''end_time'', JString ''2026-11-04T12:00:00''),
        (''har_file'', JString ''/srv/reverse-api/har/a1b2c3d4e5f6/recording.har'')])"
proof -
  have h: "files world1 (metadata_path root0 rid0) \<noteq> Some Dir"
    by (simp add: world1_files metadata_path_def joinpath_def root0_def rid0_def)
  show ?thesis
    using close_without_start [OF init0 h, of clk0 session_ok] init0 h
    by (simp add: world1_files metadata_path_def recording_path_def joinpath_def root0_def
        rid0_def prompt0_def json_load_def clk0_def isoformat_def pad2_def pad4_def digit_def
        path_str_def)
qed


end
